theory Spec2Isabelle
  imports Complex_Main
begin

section \<open>JavaScript values\<close>

text \<open>
  The adapter moves untyped JavaScript values between its caller and the remote service:
  TypeScript's annotations are erased at run time, and the decoded payload is whatever the
  JSON text held. A value is therefore one of the JavaScript value kinds. An object is the
  ordered list of its own properties; a property that is present with the value
  \<open>undefined\<close> is an entry of that list, a property that was never written is no entry.
  Numbers are the rationals (every finite double is one): no operation below does
  arithmetic on them, only their truthiness is read.
\<close>

datatype jsval =
    JUndefined
  | JNull
  | JBool bool
  | JNum rat
  | JStr string
  | JArr "jsval list"
  | JObj "(string \<times> jsval) list"

type_synonym jsobject = "(string \<times> jsval) list"

text \<open>
  What the source can throw: \<open>new Error(v)\<close> of the adapter, the TypeError of a
  property read on \<open>null\<close> or \<open>undefined\<close>, the SyntaxError of \<open>JSON.parse\<close>, and
  whatever the SDK's client or transport raises.
\<close>

datatype error =
    Error jsval
  | TypeError
  | SyntaxError
  | SdkError string

text \<open>The message of \<open>new Error(v)\<close> is \<open>v\<close> itself when \<open>v\<close> is a string
  (any other \<open>v\<close> is coerced by the language's ToString, which is not modelled).\<close>

fun message :: "error \<Rightarrow> string option" where
  "message (Error (JStr s)) = Some s"
| "message _ = None"

text \<open>Truthiness, as tested by \<open>if (v)\<close> and \<open>!v\<close>.\<close>

fun truthy :: "jsval \<Rightarrow> bool" where
  "truthy JUndefined = False"
| "truthy JNull = False"
| "truthy (JBool b) = b"
| "truthy (JNum n) = (n \<noteq> 0)"
| "truthy (JStr s) = (s \<noteq> [])"
| "truthy (JArr _) = True"
| "truthy (JObj _) = True"

text \<open>\<open>a ?? b\<close>: the right operand replaces \<open>null\<close> and \<open>undefined\<close> only.\<close>

fun nullish :: "jsval \<Rightarrow> jsval \<Rightarrow> jsval" where
  "nullish JUndefined b = b"
| "nullish JNull b = b"
| "nullish a b = a"

text \<open>A parameter default (\<open>metric = "cosine"\<close>): replaces \<open>undefined\<close> only.\<close>

fun default_param :: "jsval \<Rightarrow> jsval \<Rightarrow> jsval" where
  "default_param JUndefined d = d"
| "default_param a d = a"

text \<open>
  The property read \<open>v.k\<close> for the property names the adapter reads (none of them is a
  built-in property of strings, numbers, booleans or arrays): a TypeError on \<open>null\<close> and
  \<open>undefined\<close>, the property's value on an object that has it, \<open>undefined\<close> otherwise.
\<close>

definition own_prop :: "jsobject \<Rightarrow> string \<Rightarrow> jsval" where
  "own_prop kvs k = (case map_of kvs k of None \<Rightarrow> JUndefined | Some v \<Rightarrow> v)"

fun get_prop :: "jsval \<Rightarrow> string \<Rightarrow> error + jsval" where
  "get_prop JUndefined k = Inl TypeError"
| "get_prop JNull k = Inl TypeError"
| "get_prop (JObj kvs) k = Inr (own_prop kvs k)"
| "get_prop v k = Inr JUndefined"

text \<open>Whether an object has the property at all (\<open>k in obj\<close>).\<close>

definition has_key :: "jsobject \<Rightarrow> string \<Rightarrow> bool" where
  "has_key kvs k = (k \<in> set (map fst kvs))"

section \<open>The MCP client wrapper\<close>

text \<open>
  The class \<open>QortexMcpClient\<close> (src/unnamed/part_001, lines 320 to 419). Its configuration
  has four optional entries; a supplied client is identified by a number.
\<close>

record QortexMcpClientConfig =
  serverCommand :: "string option"
  serverArgs :: "string list option"
  serverEnv :: "(string \<times> string) list option"
  mcpClient :: "nat option"

text \<open>
  The SDK's objects. A \<open>Client\<close> is either the one supplied in the configuration
  (identified by a number) or the one \<open>connect\<close> creates with a name and a version;
  a \<open>StdioClientTransport\<close> is the triple it is constructed from.
\<close>

datatype Client = SuppliedClient nat | NewClient string string

record StdioClientTransport =
  command :: string
  args :: "string list"
  env :: "(string \<times> string) list"

text \<open>One content block of a tool result, \<open>{ type: string; text?: string }\<close>, and the
  result envelope, whose \<open>content\<close> may be missing.\<close>

record content_block =
  ctype :: string
  ctext :: "string option"

record tool_result =
  content :: "content_block list option"

text \<open>The calls made into the SDK, in order; kept with the client so that what a method
  did outside its own fields can be stated.\<close>

datatype sdk_call =
    ClientConnect Client StdioClientTransport
  | TransportClose StdioClientTransport
  | ClientCallTool Client string jsobject

text \<open>
  Everything the wrapper does not implement itself is a parameter: the process environment,
  the outcomes of the SDK's \<open>Client.connect\<close>, \<open>StdioClientTransport.close\<close> and
  \<open>Client.callTool\<close> (each may depend on the calls made so far), and \<open>JSON.parse\<close>.
\<close>

record sdk =
  process_env :: "(string \<times> string option) list"
  client_connect :: "sdk_call list \<Rightarrow> Client \<Rightarrow> StdioClientTransport \<Rightarrow> error option"
  transport_close :: "sdk_call list \<Rightarrow> StdioClientTransport \<Rightarrow> error option"
  client_callTool :: "sdk_call list \<Rightarrow> Client \<Rightarrow> string \<Rightarrow> jsobject \<Rightarrow> error + tool_result"
  JSON_parse :: "string \<Rightarrow> error + jsval"

text \<open>
  The object's fields: \<open>client\<close> and \<open>transport\<close> (\<open>null\<close> is \<open>None\<close>), \<open>config\<close>,
  and \<open>_connected\<close>, read through the getter \<open>connected\<close>. The last field is not in the
  source: it records the SDK calls this object has made.
\<close>

record QortexMcpClient =
  client :: "Client option"
  transport :: "StdioClientTransport option"
  config :: QortexMcpClientConfig
  connected :: bool
  calls :: "sdk_call list"

text \<open>The constructor (lines 337 to 343): a supplied client is adopted and counts as
  connected.\<close>

definition new_QortexMcpClient :: "QortexMcpClientConfig \<Rightarrow> QortexMcpClient" where
  "new_QortexMcpClient cfg =
     (case mcpClient cfg of
        Some c \<Rightarrow> \<lparr>client = Some (SuppliedClient c), transport = None, config = cfg,
                   connected = True, calls = []\<rparr>
      | None \<Rightarrow> \<lparr>client = None, transport = None, config = cfg,
                 connected = False, calls = []\<rparr>)"

text \<open>\<open>Object.assign(env, src)\<close> on string maps: an existing key keeps its place and takes
  the new value, a new key is appended.\<close>

fun assign_one :: "string \<Rightarrow> string \<Rightarrow> (string \<times> string) list \<Rightarrow> (string \<times> string) list" where
  "assign_one k v [] = [(k, v)]"
| "assign_one k v ((k', v') # rest) =
     (if k' = k then (k, v) # rest else (k', v') # assign_one k v rest)"

fun object_assign :: "(string \<times> string) list \<Rightarrow> (string \<times> string) list \<Rightarrow> (string \<times> string) list" where
  "object_assign tgt [] = tgt"
| "object_assign tgt ((k, v) # src) = object_assign (assign_one k v tgt) src"

text \<open>The loop over \<open>Object.entries(process.env)\<close> that keeps the defined entries.\<close>

fun defined_env :: "(string \<times> string option) list \<Rightarrow> (string \<times> string) list \<Rightarrow> (string \<times> string) list" where
  "defined_env [] acc = acc"
| "defined_env ((k, None) # rest) acc = defined_env rest acc"
| "defined_env ((k, Some v) # rest) acc = defined_env rest (assign_one k v acc)"

text \<open>
  \<open>connect\<close> (lines 349 to 375):
  \<^verbatim>\<open>if (this._connected) return;\<close>
  then the command (default \<open>uvx\<close>), the arguments (default \<open>qortex mcp-serve\<close>) and the
  environment are put together, \<open>this.transport\<close> and \<open>this.client\<close> are assigned, and
  \<^verbatim>\<open>await this.client.connect(this.transport); this._connected = true;\<close>
  If the SDK's connect throws, the two fields stay assigned and \<open>_connected\<close> stays false.
\<close>

definition connect :: "sdk \<Rightarrow> QortexMcpClient \<Rightarrow> (error + unit) \<times> QortexMcpClient" where
  "connect s st =
     (if connected st then (Inr (), st)
      else
        let cmd = (case serverCommand (config st) of None \<Rightarrow> ''uvx'' | Some c \<Rightarrow> c);
            as = (case serverArgs (config st) of None \<Rightarrow> [''qortex'', ''mcp-serve''] | Some a \<Rightarrow> a);
            e0 = defined_env (process_env s) [];
            e1 = (case serverEnv (config st) of None \<Rightarrow> e0 | Some se \<Rightarrow> object_assign e0 se);
            t = \<lparr>command = cmd, args = as, env = e1\<rparr>;
            c = NewClient ''mastra-qortex'' ''0.1.0'';
            st1 = st\<lparr>transport := Some t, client := Some c,
                     calls := calls st @ [ClientConnect c t]\<rparr>
        in case client_connect s (calls st) c t of
             Some e \<Rightarrow> (Inl e, st1)
           | None \<Rightarrow> (Inr (), st1\<lparr>connected := True\<rparr>))"

text \<open>
  \<open>disconnect\<close> (lines 377 to 384):
  \<^verbatim>\<open>if (this.transport) { await this.transport.close(); this.transport = null; }\<close>
  \<^verbatim>\<open>this.client = null; this._connected = false;\<close>
  If \<open>close\<close> throws, nothing after it runs.
\<close>

definition disconnect :: "sdk \<Rightarrow> QortexMcpClient \<Rightarrow> (error + unit) \<times> QortexMcpClient" where
  "disconnect s st =
     (case transport st of
        Some t \<Rightarrow>
          (let st1 = st\<lparr>calls := calls st @ [TransportClose t]\<rparr>
           in case transport_close s (calls st) t of
                Some e \<Rightarrow> (Inl e, st1)
              | None \<Rightarrow> (Inr (), st1\<lparr>transport := None, client := None, connected := False\<rparr>))
      | None \<Rightarrow> (Inr (), st\<lparr>client := None, connected := False\<rparr>))"

text \<open>\<open>content.find((c) => c.type === "text")\<close>.\<close>

fun find_text :: "content_block list \<Rightarrow> content_block option" where
  "find_text [] = None"
| "find_text (c # cs) = (if ctype c = ''text'' then Some c else find_text cs)"

text \<open>
  The part of \<open>callTool\<close> after the SDK has answered (lines 406 to 417):
  \<^verbatim>\<open>if (!content || content.length === 0) { return {}; }\<close>
  \<^verbatim>\<open>const textBlock = content.find((c) => c.type === "text");\<close>
  \<^verbatim>\<open>if (!textBlock?.text) { return {}; }\<close>
  \<^verbatim>\<open>return JSON.parse(textBlock.text);\<close>
  A missing text and the empty text are both falsy.
\<close>

definition decode_result :: "sdk \<Rightarrow> tool_result \<Rightarrow> error + jsval" where
  "decode_result s r =
     (case content r of
        None \<Rightarrow> Inr (JObj [])
      | Some cs \<Rightarrow>
          if length cs = 0 then Inr (JObj [])
          else (case find_text cs of
                  None \<Rightarrow> Inr (JObj [])
                | Some b \<Rightarrow>
                    (case ctext b of
                       None \<Rightarrow> Inr (JObj [])
                     | Some t \<Rightarrow> if t = [] then Inr (JObj []) else JSON_parse s t)))"

text \<open>
  \<open>callTool\<close> (lines 393 to 418): connect first when not connected, then
  \<^verbatim>\<open>await this.client!.callTool({ name, arguments: args })\<close>
  which is a TypeError when \<open>client\<close> is \<open>null\<close>, then the decoding above.
\<close>

definition callTool ::
  "sdk \<Rightarrow> string \<Rightarrow> jsobject \<Rightarrow> QortexMcpClient \<Rightarrow> (error + jsval) \<times> QortexMcpClient" where
  "callTool s name arguments st =
     (case (if \<not> connected st then connect s st else (Inr (), st)) of
        (Inl e, st1) \<Rightarrow> (Inl e, st1)
      | (Inr _, st1) \<Rightarrow>
          (case client st1 of
             None \<Rightarrow> (Inl TypeError, st1)
           | Some c \<Rightarrow>
               (let st2 = st1\<lparr>calls := calls st1 @ [ClientCallTool c name arguments]\<rparr>
                in case client_callTool s (calls st1) c name arguments of
                     Inl e \<Rightarrow> (Inl e, st2)
                   | Inr r \<Rightarrow> (decode_result s r, st2))))"

section \<open>The vector store adapter\<close>

text \<open>
  The class \<open>QortexVector\<close> (src/unnamed/part_001, lines 48 to 308); its field \<open>mcp\<close> is
  the client wrapper, which is the state threaded through each method here. A storage method
  destructures one parameter object; the model gives it the destructured values, each a
  JavaScript value, \<open>undefined\<close> for a property the caller left out.

  Every method of \<open>QortexVector\<close> has one shape: build the argument object, await
  \<open>this.mcp.callTool(name, arguments)\<close>, then treat the decoded payload. Building the
  arguments can itself throw (a property read on a missing \<open>update\<close> or \<open>options\<close>
  object), in which case no call is made. A method declared \<open>Promise<void>\<close> resolves to
  \<open>undefined\<close>.
\<close>

definition call_then ::
  "sdk \<Rightarrow> string \<Rightarrow> error + jsobject \<Rightarrow> (jsval \<Rightarrow> error + jsval) \<Rightarrow>
   QortexMcpClient \<Rightarrow> (error + jsval) \<times> QortexMcpClient" where
  "call_then s name arguments after st =
     (case arguments of
        Inl e \<Rightarrow> (Inl e, st)
      | Inr a \<Rightarrow>
          (case callTool s name a st of
             (Inl e, st') \<Rightarrow> (Inl e, st')
           | (Inr result, st') \<Rightarrow> (after result, st')))"

text \<open>The statement \<open>if (result.error) { throw new Error(result.error as string); }\<close>,
  which eight of the storage methods contain.\<close>

definition check_error :: "jsval \<Rightarrow> error + jsval" where
  "check_error result =
     (case get_prop result ''error'' of
        Inl e \<Rightarrow> Inl e
      | Inr err \<Rightarrow> if truthy err then Inl (Error err) else Inr JUndefined)"

subsection \<open>createIndex\<close>

text \<open>Lines 70 to 84; \<open>metric = "cosine"\<close> is a parameter default; the payload is only
  checked for an error.\<close>

definition createIndex_arguments :: "jsval \<Rightarrow> jsval \<Rightarrow> jsval \<Rightarrow> jsobject" where
  "createIndex_arguments indexName dimension metric =
     [(''index_name'', indexName),
      (''dimension'', dimension),
      (''metric'', default_param metric (JStr ''cosine''))]"

definition createIndex_result :: "jsval \<Rightarrow> error + jsval" where
  "createIndex_result result = check_error result"

definition createIndex ::
  "sdk \<Rightarrow> jsval \<Rightarrow> jsval \<Rightarrow> jsval \<Rightarrow> QortexMcpClient \<Rightarrow> (error + jsval) \<times> QortexMcpClient" where
  "createIndex s indexName dimension metric =
     call_then s ''qortex_vector_create_index''
       (Inr (createIndex_arguments indexName dimension metric)) createIndex_result"

subsection \<open>listIndexes\<close>

text \<open>Lines 86 to 92: no arguments, and \<^verbatim>\<open>return result.indexes;\<close> with no
  other statement.\<close>

definition listIndexes_arguments :: jsobject where
  "listIndexes_arguments = []"

definition listIndexes_result :: "jsval \<Rightarrow> error + jsval" where
  "listIndexes_result result = get_prop result ''indexes''"

definition listIndexes :: "sdk \<Rightarrow> QortexMcpClient \<Rightarrow> (error + jsval) \<times> QortexMcpClient" where
  "listIndexes s =
     call_then s ''qortex_vector_list_indexes'' (Inr listIndexes_arguments) listIndexes_result"

subsection \<open>describeIndex\<close>

text \<open>Lines 94 to 111: the error check, then an object built from the payload's
  \<open>dimension\<close>, \<open>count\<close> and \<open>metric\<close>.\<close>

definition describeIndex_arguments :: "jsval \<Rightarrow> jsobject" where
  "describeIndex_arguments indexName = [(''index_name'', indexName)]"

definition describeIndex_result :: "jsval \<Rightarrow> error + jsval" where
  "describeIndex_result result =
     (case check_error result of
        Inl e \<Rightarrow> Inl e
      | Inr _ \<Rightarrow>
          (case (get_prop result ''dimension'', get_prop result ''count'',
                 get_prop result ''metric'') of
             (Inr d, Inr c, Inr m) \<Rightarrow>
               Inr (JObj [(''dimension'', d), (''count'', c), (''metric'', m)])
           | _ \<Rightarrow> Inl TypeError))"

definition describeIndex ::
  "sdk \<Rightarrow> jsval \<Rightarrow> QortexMcpClient \<Rightarrow> (error + jsval) \<times> QortexMcpClient" where
  "describeIndex s indexName =
     call_then s ''qortex_vector_describe_index''
       (Inr (describeIndex_arguments indexName)) describeIndex_result"

subsection \<open>deleteIndex\<close>

text \<open>Lines 113 to 121.\<close>

definition deleteIndex_arguments :: "jsval \<Rightarrow> jsobject" where
  "deleteIndex_arguments indexName = [(''index_name'', indexName)]"

definition deleteIndex_result :: "jsval \<Rightarrow> error + jsval" where
  "deleteIndex_result result = check_error result"

definition deleteIndex ::
  "sdk \<Rightarrow> jsval \<Rightarrow> QortexMcpClient \<Rightarrow> (error + jsval) \<times> QortexMcpClient" where
  "deleteIndex s indexName =
     call_then s ''qortex_vector_delete_index''
       (Inr (deleteIndex_arguments indexName)) deleteIndex_result"

subsection \<open>upsert\<close>

text \<open>Lines 123 to 141: \<^verbatim>\<open>metadata: metadata ?? undefined, ids: ids ?? undefined\<close>;
  the error check, then \<^verbatim>\<open>return result.ids\<close>.\<close>

definition upsert_arguments :: "jsval \<Rightarrow> jsval \<Rightarrow> jsval \<Rightarrow> jsval \<Rightarrow> jsobject" where
  "upsert_arguments indexName vectors metadata ids =
     [(''index_name'', indexName),
      (''vectors'', vectors),
      (''metadata'', nullish metadata JUndefined),
      (''ids'', nullish ids JUndefined)]"

definition upsert_result :: "jsval \<Rightarrow> error + jsval" where
  "upsert_result result =
     (case check_error result of
        Inl e \<Rightarrow> Inl e
      | Inr _ \<Rightarrow> get_prop result ''ids'')"

definition upsert ::
  "sdk \<Rightarrow> jsval \<Rightarrow> jsval \<Rightarrow> jsval \<Rightarrow> jsval \<Rightarrow> QortexMcpClient \<Rightarrow>
   (error + jsval) \<times> QortexMcpClient" where
  "upsert s indexName vectors metadata ids =
     call_then s ''qortex_vector_upsert''
       (Inr (upsert_arguments indexName vectors metadata ids)) upsert_result"

subsection \<open>query\<close>

text \<open>Lines 143 to 163: \<open>topK = 10\<close> and \<open>includeVector = false\<close> are parameter
  defaults; the error check, then \<^verbatim>\<open>return result.results ?? [];\<close>\<close>

definition query_arguments ::
  "jsval \<Rightarrow> jsval \<Rightarrow> jsval \<Rightarrow> jsval \<Rightarrow> jsval \<Rightarrow> jsobject" where
  "query_arguments indexName queryVector topK filter' includeVector =
     [(''index_name'', indexName),
      (''query_vector'', queryVector),
      (''top_k'', default_param topK (JNum 10)),
      (''filter'', nullish filter' JUndefined),
      (''include_vector'', default_param includeVector (JBool False))]"

definition query_result :: "jsval \<Rightarrow> error + jsval" where
  "query_result result =
     (case check_error result of
        Inl e \<Rightarrow> Inl e
      | Inr _ \<Rightarrow>
          (case get_prop result ''results'' of
             Inl e \<Rightarrow> Inl e
           | Inr r \<Rightarrow> Inr (nullish r (JArr []))))"

definition query ::
  "sdk \<Rightarrow> jsval \<Rightarrow> jsval \<Rightarrow> jsval \<Rightarrow> jsval \<Rightarrow> jsval \<Rightarrow> QortexMcpClient \<Rightarrow>
   (error + jsval) \<times> QortexMcpClient" where
  "query s indexName queryVector topK filter' includeVector =
     call_then s ''qortex_vector_query''
       (Inr (query_arguments indexName queryVector topK filter' includeVector)) query_result"

subsection \<open>updateVector\<close>

text \<open>Lines 165 to 182: \<^verbatim>\<open>vector: update.vector ?? undefined\<close> and
  \<^verbatim>\<open>metadata: update.metadata ?? undefined\<close> read the \<open>update\<close> object.\<close>

definition updateVector_arguments ::
  "jsval \<Rightarrow> jsval \<Rightarrow> jsval \<Rightarrow> jsval \<Rightarrow> error + jsobject" where
  "updateVector_arguments indexName id' filter' update =
     (case (get_prop update ''vector'', get_prop update ''metadata'') of
        (Inr v, Inr m) \<Rightarrow>
          Inr [(''index_name'', indexName),
               (''id'', nullish id' JUndefined),
               (''filter'', nullish filter' JUndefined),
               (''vector'', nullish v JUndefined),
               (''metadata'', nullish m JUndefined)]
      | _ \<Rightarrow> Inl TypeError)"

definition updateVector_result :: "jsval \<Rightarrow> error + jsval" where
  "updateVector_result result = check_error result"

definition updateVector ::
  "sdk \<Rightarrow> jsval \<Rightarrow> jsval \<Rightarrow> jsval \<Rightarrow> jsval \<Rightarrow> QortexMcpClient \<Rightarrow>
   (error + jsval) \<times> QortexMcpClient" where
  "updateVector s indexName id' filter' update =
     call_then s ''qortex_vector_update''
       (updateVector_arguments indexName id' filter' update) updateVector_result"

subsection \<open>deleteVector\<close>

text \<open>Lines 184 to 193: \<open>id\<close> is passed as it is.\<close>

definition deleteVector_arguments :: "jsval \<Rightarrow> jsval \<Rightarrow> jsobject" where
  "deleteVector_arguments indexName id' = [(''index_name'', indexName), (''id'', id')]"

definition deleteVector_result :: "jsval \<Rightarrow> error + jsval" where
  "deleteVector_result result = check_error result"

definition deleteVector ::
  "sdk \<Rightarrow> jsval \<Rightarrow> jsval \<Rightarrow> QortexMcpClient \<Rightarrow> (error + jsval) \<times> QortexMcpClient" where
  "deleteVector s indexName id' =
     call_then s ''qortex_vector_delete''
       (Inr (deleteVector_arguments indexName id')) deleteVector_result"

subsection \<open>deleteVectors\<close>

text \<open>Lines 195 to 209.\<close>

definition deleteVectors_arguments :: "jsval \<Rightarrow> jsval \<Rightarrow> jsval \<Rightarrow> jsobject" where
  "deleteVectors_arguments indexName ids filter' =
     [(''index_name'', indexName),
      (''ids'', nullish ids JUndefined),
      (''filter'', nullish filter' JUndefined)]"

definition deleteVectors_result :: "jsval \<Rightarrow> error + jsval" where
  "deleteVectors_result result = check_error result"

definition deleteVectors ::
  "sdk \<Rightarrow> jsval \<Rightarrow> jsval \<Rightarrow> jsval \<Rightarrow> QortexMcpClient \<Rightarrow>
   (error + jsval) \<times> QortexMcpClient" where
  "deleteVectors s indexName ids filter' =
     call_then s ''qortex_vector_delete_many''
       (Inr (deleteVectors_arguments indexName ids filter')) deleteVectors_result"

section \<open>The graph extras\<close>

subsection \<open>textQuery\<close>

text \<open>Lines 222 to 240: \<open>options\<close> has the parameter default \<open>{}\<close>; its four properties
  are then read, each with \<open>??\<close>; the payload is returned as it is.\<close>

definition textQuery_arguments :: "jsval \<Rightarrow> jsval \<Rightarrow> error + jsobject" where
  "textQuery_arguments context' options =
     (let opts = default_param options (JObj [])
      in case (get_prop opts ''domains'', get_prop opts ''topK'',
               get_prop opts ''minConfidence'', get_prop opts ''mode'') of
           (Inr domains, Inr topK, Inr minConfidence, Inr mode) \<Rightarrow>
             Inr [(''context'', context'),
                  (''domains'', nullish domains JUndefined),
                  (''top_k'', nullish topK (JNum 20)),
                  (''min_confidence'', nullish minConfidence (JNum 0)),
                  (''mode'', nullish mode (JStr ''auto''))]
         | _ \<Rightarrow> Inl TypeError)"

definition textQuery_result :: "jsval \<Rightarrow> error + jsval" where
  "textQuery_result result = Inr result"

definition textQuery ::
  "sdk \<Rightarrow> jsval \<Rightarrow> jsval \<Rightarrow> QortexMcpClient \<Rightarrow> (error + jsval) \<times> QortexMcpClient" where
  "textQuery s context' options =
     call_then s ''qortex_query'' (textQuery_arguments context' options) textQuery_result"

subsection \<open>explore\<close>

text \<open>Lines 248 to 262: \<open>depth = 1\<close> is a parameter default, and
  \<^verbatim>\<open>if (result.node === null) { return null; } return result;\<close>\<close>

definition explore_arguments :: "jsval \<Rightarrow> jsval \<Rightarrow> jsobject" where
  "explore_arguments nodeId depth =
     [(''node_id'', nodeId), (''depth'', default_param depth (JNum 1))]"

definition explore_result :: "jsval \<Rightarrow> error + jsval" where
  "explore_result result =
     (case get_prop result ''node'' of
        Inl e \<Rightarrow> Inl e
      | Inr node \<Rightarrow> if node = JNull then Inr JNull else Inr result)"

definition explore ::
  "sdk \<Rightarrow> jsval \<Rightarrow> jsval \<Rightarrow> QortexMcpClient \<Rightarrow> (error + jsval) \<times> QortexMcpClient" where
  "explore s nodeId depth =
     call_then s ''qortex_explore'' (Inr (explore_arguments nodeId depth)) explore_result"

subsection \<open>getRules\<close>

text \<open>Lines 271 to 287: \<open>options\<close> has the parameter default \<open>{}\<close>; the payload is
  returned as it is.\<close>

definition getRules_arguments :: "jsval \<Rightarrow> error + jsobject" where
  "getRules_arguments options =
     (let opts = default_param options (JObj [])
      in case (get_prop opts ''domains'', get_prop opts ''conceptIds'',
               get_prop opts ''categories'', get_prop opts ''includeDerived'',
               get_prop opts ''minConfidence'') of
           (Inr domains, Inr conceptIds, Inr categories, Inr includeDerived,
            Inr minConfidence) \<Rightarrow>
             Inr [(''domains'', nullish domains JUndefined),
                  (''concept_ids'', nullish conceptIds JUndefined),
                  (''categories'', nullish categories JUndefined),
                  (''include_derived'', nullish includeDerived (JBool True)),
                  (''min_confidence'', nullish minConfidence (JNum 0))]
         | _ \<Rightarrow> Inl TypeError)"

definition getRules_result :: "jsval \<Rightarrow> error + jsval" where
  "getRules_result result = Inr result"

definition getRules ::
  "sdk \<Rightarrow> jsval \<Rightarrow> QortexMcpClient \<Rightarrow> (error + jsval) \<times> QortexMcpClient" where
  "getRules s options =
     call_then s ''qortex_rules'' (getRules_arguments options) getRules_result"

subsection \<open>feedback\<close>

text \<open>Lines 295 to 307: \<open>source = "mastra"\<close> is a parameter default; the payload is
  returned as it is.\<close>

definition feedback_arguments :: "jsval \<Rightarrow> jsval \<Rightarrow> jsval \<Rightarrow> jsobject" where
  "feedback_arguments queryId outcomes source =
     [(''query_id'', queryId),
      (''outcomes'', outcomes),
      (''source'', default_param source (JStr ''mastra''))]"

definition feedback_result :: "jsval \<Rightarrow> error + jsval" where
  "feedback_result result = Inr result"

definition feedback ::
  "sdk \<Rightarrow> jsval \<Rightarrow> jsval \<Rightarrow> jsval \<Rightarrow> QortexMcpClient \<Rightarrow>
   (error + jsval) \<times> QortexMcpClient" where
  "feedback s queryId outcomes source =
     call_then s ''qortex_feedback''
       (Inr (feedback_arguments queryId outcomes source)) feedback_result"

section \<open>Method invocations\<close>

text \<open>
  A caller of \<open>QortexVector\<close> invokes one of its thirteen public methods with that method's
  parameters. The invocation as a value makes it possible to speak of every method at once:
  \<open>invoke\<close> runs the method, \<open>tool_name\<close> and \<open>arguments_of\<close> give the tool call the
  method makes, \<open>treat\<close> is what it does with the decoded payload.
\<close>

datatype invocation =
    CreateIndex jsval jsval jsval
  | ListIndexes
  | DescribeIndex jsval
  | DeleteIndex jsval
  | Upsert jsval jsval jsval jsval
  | Query jsval jsval jsval jsval jsval
  | UpdateVector jsval jsval jsval jsval
  | DeleteVector jsval jsval
  | DeleteVectors jsval jsval jsval
  | TextQuery jsval jsval
  | Explore jsval jsval
  | GetRules jsval
  | Feedback jsval jsval jsval

fun invoke :: "sdk \<Rightarrow> invocation \<Rightarrow> QortexMcpClient \<Rightarrow> (error + jsval) \<times> QortexMcpClient" where
  "invoke s (CreateIndex indexName dimension metric) = createIndex s indexName dimension metric"
| "invoke s ListIndexes = listIndexes s"
| "invoke s (DescribeIndex indexName) = describeIndex s indexName"
| "invoke s (DeleteIndex indexName) = deleteIndex s indexName"
| "invoke s (Upsert indexName vectors metadata ids) = upsert s indexName vectors metadata ids"
| "invoke s (Query indexName queryVector topK filter' includeVector) =
     query s indexName queryVector topK filter' includeVector"
| "invoke s (UpdateVector indexName id' filter' update) =
     updateVector s indexName id' filter' update"
| "invoke s (DeleteVector indexName id') = deleteVector s indexName id'"
| "invoke s (DeleteVectors indexName ids filter') = deleteVectors s indexName ids filter'"
| "invoke s (TextQuery context' options) = textQuery s context' options"
| "invoke s (Explore nodeId depth) = explore s nodeId depth"
| "invoke s (GetRules options) = getRules s options"
| "invoke s (Feedback queryId outcomes source) = feedback s queryId outcomes source"

fun tool_name :: "invocation \<Rightarrow> string" where
  "tool_name (CreateIndex _ _ _) = ''qortex_vector_create_index''"
| "tool_name ListIndexes = ''qortex_vector_list_indexes''"
| "tool_name (DescribeIndex _) = ''qortex_vector_describe_index''"
| "tool_name (DeleteIndex _) = ''qortex_vector_delete_index''"
| "tool_name (Upsert _ _ _ _) = ''qortex_vector_upsert''"
| "tool_name (Query _ _ _ _ _) = ''qortex_vector_query''"
| "tool_name (UpdateVector _ _ _ _) = ''qortex_vector_update''"
| "tool_name (DeleteVector _ _) = ''qortex_vector_delete''"
| "tool_name (DeleteVectors _ _ _) = ''qortex_vector_delete_many''"
| "tool_name (TextQuery _ _) = ''qortex_query''"
| "tool_name (Explore _ _) = ''qortex_explore''"
| "tool_name (GetRules _) = ''qortex_rules''"
| "tool_name (Feedback _ _ _) = ''qortex_feedback''"

fun arguments_of :: "invocation \<Rightarrow> error + jsobject" where
  "arguments_of (CreateIndex indexName dimension metric) =
     Inr (createIndex_arguments indexName dimension metric)"
| "arguments_of ListIndexes = Inr listIndexes_arguments"
| "arguments_of (DescribeIndex indexName) = Inr (describeIndex_arguments indexName)"
| "arguments_of (DeleteIndex indexName) = Inr (deleteIndex_arguments indexName)"
| "arguments_of (Upsert indexName vectors metadata ids) =
     Inr (upsert_arguments indexName vectors metadata ids)"
| "arguments_of (Query indexName queryVector topK filter' includeVector) =
     Inr (query_arguments indexName queryVector topK filter' includeVector)"
| "arguments_of (UpdateVector indexName id' filter' update) =
     updateVector_arguments indexName id' filter' update"
| "arguments_of (DeleteVector indexName id') = Inr (deleteVector_arguments indexName id')"
| "arguments_of (DeleteVectors indexName ids filter') =
     Inr (deleteVectors_arguments indexName ids filter')"
| "arguments_of (TextQuery context' options) = textQuery_arguments context' options"
| "arguments_of (Explore nodeId depth) = Inr (explore_arguments nodeId depth)"
| "arguments_of (GetRules options) = getRules_arguments options"
| "arguments_of (Feedback queryId outcomes source) =
     Inr (feedback_arguments queryId outcomes source)"

fun treat :: "invocation \<Rightarrow> jsval \<Rightarrow> error + jsval" where
  "treat (CreateIndex _ _ _) = createIndex_result"
| "treat ListIndexes = listIndexes_result"
| "treat (DescribeIndex _) = describeIndex_result"
| "treat (DeleteIndex _) = deleteIndex_result"
| "treat (Upsert _ _ _ _) = upsert_result"
| "treat (Query _ _ _ _ _) = query_result"
| "treat (UpdateVector _ _ _ _) = updateVector_result"
| "treat (DeleteVector _ _) = deleteVector_result"
| "treat (DeleteVectors _ _ _) = deleteVectors_result"
| "treat (TextQuery _ _) = textQuery_result"
| "treat (Explore _ _) = explore_result"
| "treat (GetRules _) = getRules_result"
| "treat (Feedback _ _ _) = feedback_result"

text \<open>The nine methods of the storage contract, and the four graph extras.\<close>

fun storage :: "invocation \<Rightarrow> bool" where
  "storage (TextQuery _ _) = False"
| "storage (Explore _ _) = False"
| "storage (GetRules _) = False"
| "storage (Feedback _ _ _) = False"
| "storage _ = True"

section \<open>A mock SDK\<close>

text \<open>
  The unit tests drive the adapter through a client supplied in the configuration whose
  \<open>callTool\<close> answers every call with one text block holding the JSON text of a chosen
  payload. The mock below does the same: it answers every call with the envelope \<open>r\<close>,
  and its decoder knows one text, \<open>t\<close>, which it decodes to \<open>data\<close>; every other
  text, and the empty text in any case, is a SyntaxError, as it is for \<open>JSON.parse\<close>.
\<close>

definition mockResponse :: "string \<Rightarrow> tool_result" where
  "mockResponse t = \<lparr>content = Some [\<lparr>ctype = ''text'', ctext = Some t\<rparr>]\<rparr>"

definition mock_sdk :: "tool_result \<Rightarrow> string \<Rightarrow> jsval \<Rightarrow> sdk" where
  "mock_sdk r t data =
     \<lparr>process_env = [],
      client_connect = (\<lambda>h c tr. None),
      transport_close = (\<lambda>h tr. None),
      client_callTool = (\<lambda>h c name a. Inr r),
      JSON_parse = (\<lambda>x. if x \<noteq> [] \<and> x = t then Inr data else Inl SyntaxError)\<rparr>"

text \<open>\<open>mockResponse(data)\<close> of the tests; the fixed text stands for
  \<open>JSON.stringify(data)\<close>.\<close>

definition mock_answering :: "jsval \<Rightarrow> sdk" where
  "mock_answering data = mock_sdk (mockResponse ''JSON.stringify(data)'') ''JSON.stringify(data)'' data"

definition mock_config :: QortexMcpClientConfig where
  "mock_config = \<lparr>serverCommand = None, serverArgs = None, serverEnv = None, mcpClient = Some 0\<rparr>"

definition mock_client :: QortexMcpClient where
  "mock_client = new_QortexMcpClient mock_config"

text \<open>A client that spawns its own server, with the default command.\<close>

definition spawn_config :: QortexMcpClientConfig where
  "spawn_config = \<lparr>serverCommand = None, serverArgs = None, serverEnv = None, mcpClient = None\<rparr>"

definition fresh_client :: QortexMcpClient where
  "fresh_client = new_QortexMcpClient spawn_config"

text \<open>The same client after a successful \<open>connect()\<close>, and after a \<open>disconnect()\<close>
  following it.\<close>

definition default_transport :: StdioClientTransport where
  "default_transport = \<lparr>command = ''uvx'', args = [''qortex'', ''mcp-serve''], env = []\<rparr>"

definition spawned_client :: QortexMcpClient where
  "spawned_client =
     \<lparr>client = Some (NewClient ''mastra-qortex'' ''0.1.0''),
      transport = Some default_transport,
      config = spawn_config,
      connected = True,
      calls = [ClientConnect (NewClient ''mastra-qortex'' ''0.1.0'') default_transport]\<rparr>"

definition stopped_client :: QortexMcpClient where
  "stopped_client =
     \<lparr>client = None, transport = None, config = spawn_config, connected = False,
      calls = [ClientConnect (NewClient ''mastra-qortex'' ''0.1.0'') default_transport,
               TransportClose default_transport]\<rparr>"

text \<open>The payloads of the two \<open>explore\<close> unit tests: a node with one edge and one
  neighbour, and the null-node marker.\<close>

definition oauth_node :: jsval where
  "oauth_node = JObj [(''id'', JStr ''sec:oauth''), (''name'', JStr ''OAuth2''),
                      (''description'', JStr ''Auth framework''), (''domain'', JStr ''security''),
                      (''confidence'', JNum 1), (''properties'', JObj [])]"

definition jwt_node :: jsval where
  "jwt_node = JObj [(''id'', JStr ''sec:jwt''), (''name'', JStr ''JWT''),
                    (''description'', JStr ''Signed tokens''), (''domain'', JStr ''security''),
                    (''confidence'', JNum 1), (''properties'', JObj [])]"

definition requires_edge :: jsval where
  "requires_edge = JObj [(''source_id'', JStr ''sec:oauth''), (''target_id'', JStr ''sec:jwt''),
                         (''relation_type'', JStr ''REQUIRES''), (''confidence'', JNum (9 / 10)),
                         (''properties'', JObj [])]"

definition neighborhood :: jsval where
  "neighborhood = JObj [(''node'', oauth_node), (''edges'', JArr [requires_edge]),
                        (''neighbors'', JArr [jwt_node]), (''rules'', JArr [])]"

definition null_node :: jsval where
  "null_node = JObj [(''node'', JNull)]"

text \<open>The two hits of the \<open>query\<close> unit test.\<close>

definition hit_v1 :: jsval where
  "hit_v1 = JObj [(''id'', JStr ''v1''), (''score'', JNum (95 / 100)),
                  (''metadata'', JObj [(''source'', JStr ''a'')])]"

definition hit_v2 :: jsval where
  "hit_v2 = JObj [(''id'', JStr ''v2''), (''score'', JNum (82 / 100)),
                  (''metadata'', JObj [(''source'', JStr ''b'')])]"

text \<open>Envelopes without a usable text block: no \<open>content\<close>, no blocks, only an image
  block, a text block with the empty text, a text block without text.\<close>

definition image_block :: content_block where
  "image_block = \<lparr>ctype = ''image'', ctext = None\<rparr>"

definition empty_text_block :: content_block where
  "empty_text_block = \<lparr>ctype = ''text'', ctext = Some []\<rparr>"

definition payload_block :: content_block where
  "payload_block = \<lparr>ctype = ''text'', ctext = Some ''JSON.stringify(data)''\<rparr>"

text \<open>
  How an optional parameter without a default reaches the argument object: the marker is
  \<open>undefined\<close>, written when the caller's value is \<open>undefined\<close> or \<open>null\<close>; any other
  value is written as it is. \<open>carries\<close> says that the arguments were built and have the key
  \<open>k\<close> with the value \<open>v\<close>.
\<close>

definition marker_or :: "jsval \<Rightarrow> jsval" where
  "marker_or v = (if v = JUndefined \<or> v = JNull then JUndefined else v)"

definition carries :: "error + jsobject \<Rightarrow> string \<Rightarrow> jsval \<Rightarrow> bool" where
  "carries built k v =
     (case built of Inl e \<Rightarrow> False | Inr a \<Rightarrow> has_key a k \<and> map_of a k = Some v)"

text \<open>
  Two SDKs that fail: one whose \<open>Client.connect\<close> is refused, one whose transport does
  not close. And the client a refused \<open>connect()\<close> leaves behind: transport and client
  assigned, not connected.
\<close>

definition refusing_sdk :: sdk where
  "refusing_sdk =
     (mock_answering (JObj []))\<lparr>client_connect := (\<lambda>h c tr. Some (SdkError ''handshake rejected''))\<rparr>"

definition stuck_sdk :: sdk where
  "stuck_sdk =
     (mock_answering (JObj []))\<lparr>transport_close := (\<lambda>h tr. Some (SdkError ''close failed''))\<rparr>"

definition refused_client :: QortexMcpClient where
  "refused_client =
     \<lparr>client = Some (NewClient ''mastra-qortex'' ''0.1.0''),
      transport = Some default_transport,
      config = spawn_config,
      connected = False,
      calls = [ClientConnect (NewClient ''mastra-qortex'' ''0.1.0'') default_transport]\<rparr>"

text \<open>A payload with empty fields and no node.\<close>

definition empty_neighborhood :: jsval where
  "empty_neighborhood = JObj [(''edges'', JArr []), (''neighbors'', JArr []), (''rules'', JArr [])]"

section \<open>Basic facts\<close>

lemma fst_call_then:
  "fst (call_then s name (Inr a) after st) =
     (case fst (callTool s name a st) of Inl e \<Rightarrow> Inl e | Inr p \<Rightarrow> after p)"
  by (simp add: call_then_def split: prod.split sum.split)

lemma callTool_connected:
  assumes "connected st" and "client st = Some c"
  shows "callTool s name a st =
     ((case client_callTool s (calls st) c name a of
         Inl e \<Rightarrow> Inl e | Inr r \<Rightarrow> decode_result s r),
      st\<lparr>calls := calls st @ [ClientCallTool c name a]\<rparr>)"
  using assms by (simp add: callTool_def Let_def split: sum.split)

lemma call_then_calls:
  assumes "connected st" and "client st = Some c"
  shows "calls (snd (call_then s name (Inr a) after st)) = calls st @ [ClientCallTool c name a]"
  using assms by (simp add: call_then_def callTool_connected split: sum.split)

lemma mock_client_fields:
  "connected mock_client" "client mock_client = Some (SuppliedClient 0)"
  "calls mock_client = []" "transport mock_client = None"
  by (simp_all add: mock_client_def mock_config_def new_QortexMcpClient_def)

lemma fresh_client_fields:
  "\<not> connected fresh_client" "client fresh_client = None"
  "calls fresh_client = []" "transport fresh_client = None"
  "config fresh_client = spawn_config"
  by (simp_all add: fresh_client_def spawn_config_def new_QortexMcpClient_def)

lemma invoke_call_then:
  "invoke s m = call_then s (tool_name m) (arguments_of m) (treat m)"
  by (cases m)
    (simp_all add: createIndex_def listIndexes_def describeIndex_def deleteIndex_def upsert_def
      query_def updateVector_def deleteVector_def deleteVectors_def textQuery_def explore_def
      getRules_def feedback_def)

lemma fst_invoke:
  assumes "arguments_of m = Inr a" and "fst (callTool s (tool_name m) a st) = Inr p"
  shows "fst (invoke s m st) = treat m p"
  using assms by (simp add: invoke_call_then fst_call_then)

lemma fst_invoke_failed:
  assumes "arguments_of m = Inr a" and "fst (callTool s (tool_name m) a st) = Inl e"
  shows "fst (invoke s m st) = Inl e"
  using assms by (simp add: invoke_call_then fst_call_then)

lemma invoke_calls:
  assumes "connected st" and "client st = Some c" and "arguments_of m = Inr a"
  shows "calls (snd (invoke s m st)) = calls st @ [ClientCallTool c (tool_name m) a]"
  using assms by (simp add: invoke_call_then call_then_calls)

lemma check_error_raises:
  assumes "map_of kvs ''error'' = Some (JStr msg)" and "msg \<noteq> []"
  shows "check_error (JObj kvs) = Inl (Error (JStr msg))"
  using assms by (simp add: check_error_def own_prop_def)

lemma callTool_mock:
  "callTool (mock_sdk r t data) name a mock_client =
     (decode_result (mock_sdk r t data) r,
      mock_client\<lparr>calls := [ClientCallTool (SuppliedClient 0) name a]\<rparr>)"
  by (simp add: callTool_connected mock_client_fields mock_sdk_def)

lemma callTool_mock_answering:
  "callTool (mock_answering data) name a mock_client =
     (Inr data, mock_client\<lparr>calls := [ClientCallTool (SuppliedClient 0) name a]\<rparr>)"
proof -
  have "decode_result (mock_sdk (mockResponse t) t data) (mockResponse t) = Inr data"
    if "t \<noteq> []" for t
    using that by (simp add: decode_result_def mockResponse_def mock_sdk_def)
  then show ?thesis
    by (simp only: mock_answering_def callTool_mock) simp
qed

section \<open>Connection lifecycle\<close>

text \<open>
  Claim C9, as stated, fails for \<open>disconnect()\<close> at two inputs. A \<open>connect()\<close> that the
  SDK refuses leaves a client that is not connected but holds a transport; \<open>disconnect()\<close>
  on it is not a no-op: it closes that transport and clears the fields. And when the
  transport's \<open>close\<close> throws, \<open>disconnect()\<close> throws before it resets anything, so after
  that \<open>disconnect()\<close> the client is still connected.
\<close>

theorem disconnect_counterexample:
  "connect refusing_sdk fresh_client = (Inl (SdkError ''handshake rejected''), refused_client) \<and>
   \<not> connected refused_client \<and>
   disconnect (mock_answering (JObj [])) refused_client = (Inr (), stopped_client) \<and>
   stopped_client \<noteq> refused_client \<and>
   connected spawned_client \<and>
   fst (disconnect stuck_sdk spawned_client) = Inl (SdkError ''close failed'') \<and>
   connected (snd (disconnect stuck_sdk spawned_client))"
  by (simp add: connect_def disconnect_def fresh_client_def new_QortexMcpClient_def
      spawn_config_def refused_client_def stopped_client_def spawned_client_def
      default_transport_def refusing_sdk_def stuck_sdk_def mock_answering_def mock_sdk_def
      Let_def)

text \<open>
  Claim C9, amended. \<open>connect()\<close> on a connected client does nothing: it returns normally,
  no field changes and no call into the SDK is made, so no second process is spawned.
  \<open>disconnect()\<close> is idempotent where it returns: once a \<open>disconnect()\<close> has returned
  normally, the client is not connected and a further \<open>disconnect()\<close> returns normally
  leaving every field and the SDK untouched; the same holds on a client that holds neither
  transport nor client. On a client that holds a transport, connected or not,
  \<open>disconnect()\<close> calls the transport's \<open>close\<close>: when that succeeds the fields are
  cleared and the client is not connected, when it throws the failure reaches the caller.
\<close>

theorem connect_disconnect_noop:
  "(connected st \<longrightarrow> connect s st = (Inr (), st)) \<and>
   (disconnect s st = (Inr (), st') \<longrightarrow>
      \<not> connected st' \<and> disconnect s st' = (Inr (), st')) \<and>
   (\<not> connected st \<and> transport st = None \<and> client st = None \<longrightarrow>
      disconnect s st = (Inr (), st)) \<and>
   (transport st = Some t \<and> transport_close s (calls st) t = None \<longrightarrow>
      disconnect s st =
        (Inr (), st\<lparr>calls := calls st @ [TransportClose t], transport := None,
                     client := None, connected := False\<rparr>)) \<and>
   (transport st = Some t \<and> transport_close s (calls st) t = Some e \<longrightarrow>
      fst (disconnect s st) = Inl e)"
  by (auto simp add: connect_def disconnect_def Let_def split: option.splits)

theorem connect_disconnect_noop_witness:
  "connect (mock_answering (JObj [])) fresh_client = (Inr (), spawned_client) \<and>
   connected spawned_client \<and>
   connect (mock_answering (JObj [])) spawned_client = (Inr (), spawned_client) \<and>
   disconnect (mock_answering (JObj [])) spawned_client = (Inr (), stopped_client) \<and>
   \<not> connected stopped_client \<and>
   disconnect (mock_answering (JObj [])) stopped_client = (Inr (), stopped_client) \<and>
   \<not> connected fresh_client \<and> transport fresh_client = None \<and> client fresh_client = None \<and>
   disconnect (mock_answering (JObj [])) fresh_client = (Inr (), fresh_client) \<and>
   transport refused_client = Some default_transport \<and>
   disconnect (mock_answering (JObj [])) refused_client =
     (Inr (), refused_client\<lparr>calls := calls refused_client @ [TransportClose default_transport],
                 transport := None, client := None, connected := False\<rparr>) \<and>
   transport_close stuck_sdk (calls spawned_client) default_transport
     = Some (SdkError ''close failed'') \<and>
   fst (disconnect stuck_sdk spawned_client) = Inl (SdkError ''close failed'')"
proof -
  let ?s = "mock_answering (JObj [])"
  have spawn: "connect ?s fresh_client = (Inr (), spawned_client)"
    by (simp add: connect_def fresh_client_def new_QortexMcpClient_def spawn_config_def
        spawned_client_def default_transport_def mock_answering_def mock_sdk_def Let_def)
  have up: "connected spawned_client"
    by (simp add: spawned_client_def)
  have stop: "disconnect ?s spawned_client = (Inr (), stopped_client)"
    by (simp add: disconnect_def spawned_client_def stopped_client_def
        mock_answering_def mock_sdk_def Let_def)
  have never: "\<not> connected fresh_client \<and> transport fresh_client = None \<and> client fresh_client = None"
    by (simp add: fresh_client_fields)
  have held: "transport refused_client = Some default_transport"
    by (simp add: refused_client_def)
  have closes: "transport_close ?s (calls refused_client) default_transport = None"
    by (simp add: mock_answering_def mock_sdk_def)
  have held': "transport spawned_client = Some default_transport"
    by (simp add: spawned_client_def)
  have stuck: "transport_close stuck_sdk (calls spawned_client) default_transport
               = Some (SdkError ''close failed'')"
    by (simp add: stuck_sdk_def)
  from up stop connect_disconnect_noop [where st = spawned_client and s = ?s and st' = stopped_client]
  have again: "connect ?s spawned_client = (Inr (), spawned_client)"
    and down: "\<not> connected stopped_client"
    and twice: "disconnect ?s stopped_client = (Inr (), stopped_client)"
    by blast+
  from never connect_disconnect_noop [where st = fresh_client and s = ?s]
  have unused: "disconnect ?s fresh_client = (Inr (), fresh_client)"
    by blast
  from held closes
    connect_disconnect_noop [where st = refused_client and s = ?s and t = default_transport]
  have cleanup: "disconnect ?s refused_client =
     (Inr (), refused_client\<lparr>calls := calls refused_client @ [TransportClose default_transport],
                 transport := None, client := None, connected := False\<rparr>)"
    by blast
  from held' stuck
    connect_disconnect_noop [where st = spawned_client and s = stuck_sdk
      and t = default_transport and e = "SdkError ''close failed''"]
  have thrown: "fst (disconnect stuck_sdk spawned_client) = Inl (SdkError ''close failed'')"
    by blast
  from spawn up again stop down twice never unused held cleanup stuck thrown show ?thesis
    by blast
qed

section \<open>Remote errors in the storage methods\<close>

text \<open>
  Claim C1, as stated, fails at two inputs. A payload whose \<open>error\<close> field is the empty
  string carries the field, yet \<open>createIndex\<close> returns normally: the test is the
  truthiness of the field. And \<open>listIndexes\<close> does not look at the field at all: on a
  payload with an \<open>error\<close> string it returns \<open>undefined\<close>, the missing \<open>indexes\<close>.
\<close>

theorem storage_error_counterexample:
  "has_key [(''error'', JStr [])] ''error'' \<and>
   fst (createIndex (mock_answering (JObj [(''error'', JStr [])]))
          (JStr ''docs'') (JNum 384) JUndefined mock_client) = Inr JUndefined \<and>
   has_key [(''error'', JStr ''index store unavailable'')] ''error'' \<and>
   fst (listIndexes (mock_answering (JObj [(''error'', JStr ''index store unavailable'')]))
          mock_client) = Inr JUndefined"
  by (simp add: has_key_def createIndex_def listIndexes_def fst_call_then callTool_mock_answering
      createIndex_result_def listIndexes_result_def check_error_def own_prop_def)

text \<open>
  Claim C1, amended. Let a storage method's tool call return a decoded payload that is an
  object. For the eight methods other than \<open>listIndexes\<close>: if the payload's \<open>error\<close>
  field is a non-empty string, the method raises an \<open>Error\<close> whose message is exactly
  that string. For all nine: if the payload has no \<open>error\<close> field, or a falsy one, the
  method returns normally.
\<close>

theorem storage_error_surfacing:
  assumes "storage m" and "arguments_of m = Inr a"
    and "fst (callTool s (tool_name m) a st) = Inr (JObj kvs)"
  shows "(m \<noteq> ListIndexes \<and> map_of kvs ''error'' = Some (JStr msg) \<and> msg \<noteq> [] \<longrightarrow>
            fst (invoke s m st) = Inl (Error (JStr msg)) \<and>
            message (Error (JStr msg)) = Some msg) \<and>
         (map_of kvs ''error'' = None \<longrightarrow> (\<exists>v. fst (invoke s m st) = Inr v)) \<and>
         (\<not> truthy (own_prop kvs ''error'') \<longrightarrow> (\<exists>v. fst (invoke s m st) = Inr v))"
proof -
  have run: "fst (invoke s m st) = treat m (JObj kvs)"
    using assms(2,3) by (rule fst_invoke)
  have raised: "treat m (JObj kvs) = Inl (Error (JStr msg))"
    if "m \<noteq> ListIndexes" "map_of kvs ''error'' = Some (JStr msg)" "msg \<noteq> []"
    using that assms(1)
    by (cases m)
      (simp_all add: createIndex_result_def describeIndex_result_def deleteIndex_result_def
        upsert_result_def query_result_def updateVector_result_def deleteVector_result_def
        deleteVectors_result_def check_error_raises)
  have passed: "\<exists>v. treat m (JObj kvs) = Inr v" if "\<not> truthy (own_prop kvs ''error'')"
    using that assms(1)
    by (cases m)
      (simp_all add: createIndex_result_def listIndexes_result_def describeIndex_result_def
        deleteIndex_result_def upsert_result_def query_result_def updateVector_result_def
        deleteVector_result_def deleteVectors_result_def check_error_def)
  have absent: "\<not> truthy (own_prop kvs ''error'')" if "map_of kvs ''error'' = None"
    using that by (simp add: own_prop_def)
  from run raised passed absent show ?thesis
    by simp
qed

theorem storage_error_surfacing_witness:
  "fst (invoke (mock_answering (JObj [(''error'', JStr ''Dimension mismatch'')]))
          (CreateIndex (JStr ''docs'') (JNum 384) JUndefined) mock_client)
     = Inl (Error (JStr ''Dimension mismatch'')) \<and>
   message (Error (JStr ''Dimension mismatch'')) = Some ''Dimension mismatch'' \<and>
   (\<exists>v. fst (invoke (mock_answering (JObj [(''status'', JStr ''deleted'')]))
          (DeleteVector (JStr ''docs'') (JStr ''v1'')) mock_client) = Inr v)"
proof -
  let ?bad = "[(''error'', JStr ''Dimension mismatch'')]"
  let ?good = "[(''status'', JStr ''deleted'')]"
  let ?create = "CreateIndex (JStr ''docs'') (JNum 384) JUndefined"
  let ?delete = "DeleteVector (JStr ''docs'') (JStr ''v1'')"
  have c1: "storage ?create"
    and c2: "arguments_of ?create =
               Inr (createIndex_arguments (JStr ''docs'') (JNum 384) JUndefined)"
    and c3: "?create \<noteq> ListIndexes"
    by simp_all
  have c4: "fst (callTool (mock_answering (JObj ?bad)) (tool_name ?create)
               (createIndex_arguments (JStr ''docs'') (JNum 384) JUndefined) mock_client)
            = Inr (JObj ?bad)"
    by (simp add: callTool_mock_answering)
  have c5: "map_of ?bad ''error'' = Some (JStr ''Dimension mismatch'')"
    "''Dimension mismatch'' \<noteq> []"
    by simp_all
  have d1: "storage ?delete"
    and d2: "arguments_of ?delete = Inr (deleteVector_arguments (JStr ''docs'') (JStr ''v1''))"
    by simp_all
  have d4: "fst (callTool (mock_answering (JObj ?good)) (tool_name ?delete)
               (deleteVector_arguments (JStr ''docs'') (JStr ''v1'')) mock_client)
            = Inr (JObj ?good)"
    by (simp add: callTool_mock_answering)
  have d5: "map_of ?good ''error'' = None"
    by simp
  from storage_error_surfacing [OF c1 c2 c4, of "''Dimension mismatch''"] c3 c5
  have r1: "fst (invoke (mock_answering (JObj ?bad)) ?create mock_client)
            = Inl (Error (JStr ''Dimension mismatch''))"
    and r2: "message (Error (JStr ''Dimension mismatch'')) = Some ''Dimension mismatch''"
    by blast+
  from storage_error_surfacing [OF d1 d2 d4] d5
  have r3: "\<exists>v. fst (invoke (mock_answering (JObj ?good)) ?delete mock_client) = Inr v"
    by blast
  from r1 r2 r3 show ?thesis by blast
qed

section \<open>Remote errors in the graph extras\<close>

text \<open>
  Claim C2, as stated, fails: \<open>feedback\<close> on a payload that carries an \<open>error\<close> field
  raises nothing and hands the payload back as its result.
\<close>

theorem extras_error_counterexample:
  "has_key [(''error'', JStr ''unknown query_id'')] ''error'' \<and>
   fst (feedback (mock_answering (JObj [(''error'', JStr ''unknown query_id'')]))
          (JStr ''q-1'') (JObj [(''i-1'', JStr ''accepted'')]) JUndefined mock_client)
     = Inr (JObj [(''error'', JStr ''unknown query_id'')])"
  by (simp add: has_key_def feedback_def fst_call_then callTool_mock_answering feedback_result_def)

text \<open>
  Claim C2, amended. The four graph extras do not inspect an \<open>error\<close> field. When the
  tool call returns a decoded payload object, \<open>textQuery\<close>, \<open>getRules\<close> and \<open>feedback\<close>
  return that payload unchanged, whatever fields it carries, and so does \<open>explore\<close>
  unless the payload's \<open>node\<close> is \<open>null\<close>. A failure of the tool call itself reaches
  the caller unchanged.
\<close>

theorem extras_return_payload:
  assumes "\<not> storage m" and "arguments_of m = Inr a"
  shows "(fst (callTool s (tool_name m) a st) = Inr (JObj kvs) \<and>
          (case m of Explore n d \<Rightarrow> own_prop kvs ''node'' \<noteq> JNull | _ \<Rightarrow> True) \<longrightarrow>
            fst (invoke s m st) = Inr (JObj kvs)) \<and>
         (fst (callTool s (tool_name m) a st) = Inl e \<longrightarrow> fst (invoke s m st) = Inl e)"
proof -
  have "treat m (JObj kvs) = Inr (JObj kvs)"
    if "case m of Explore n d \<Rightarrow> own_prop kvs ''node'' \<noteq> JNull | _ \<Rightarrow> True"
    using that assms(1)
    by (cases m)
      (simp_all add: textQuery_result_def explore_result_def getRules_result_def
        feedback_result_def)
  with assms(2) show ?thesis
    by (simp add: fst_invoke fst_invoke_failed)
qed

theorem extras_return_payload_witness:
  "fst (invoke (mock_answering (JObj [(''error'', JStr ''no such domain'')]))
          (GetRules (JObj [(''domains'', JArr [JStr ''security''])])) mock_client)
     = Inr (JObj [(''error'', JStr ''no such domain'')]) \<and>
   fst (invoke (mock_answering (JObj [(''error'', JStr ''no such node'')]))
          (Explore (JStr ''sec:oauth'') JUndefined) mock_client)
     = Inr (JObj [(''error'', JStr ''no such node'')])"
proof -
  let ?p = "[(''error'', JStr ''no such domain'')]"
  let ?q = "[(''error'', JStr ''no such node'')]"
  let ?rules = "GetRules (JObj [(''domains'', JArr [JStr ''security''])])"
  let ?explore = "Explore (JStr ''sec:oauth'') JUndefined"
  obtain a where a: "arguments_of ?rules = Inr a"
    by (simp add: getRules_arguments_def)
  have g1: "\<not> storage ?rules" by simp
  have g2: "fst (callTool (mock_answering (JObj ?p)) (tool_name ?rules) a mock_client)
            = Inr (JObj ?p)"
    by (simp add: callTool_mock_answering)
  have g3: "case ?rules of Explore n d \<Rightarrow> own_prop ?p ''node'' \<noteq> JNull | _ \<Rightarrow> True"
    by simp
  from extras_return_payload [OF g1 a, of "mock_answering (JObj ?p)" mock_client ?p] g2 g3
  have r1: "fst (invoke (mock_answering (JObj ?p)) ?rules mock_client) = Inr (JObj ?p)"
    by blast
  have e0: "arguments_of ?explore = Inr (explore_arguments (JStr ''sec:oauth'') JUndefined)"
    by simp
  have e1: "\<not> storage ?explore" by simp
  have e2: "fst (callTool (mock_answering (JObj ?q)) (tool_name ?explore)
              (explore_arguments (JStr ''sec:oauth'') JUndefined) mock_client) = Inr (JObj ?q)"
    by (simp add: callTool_mock_answering)
  have e3: "case ?explore of Explore n d \<Rightarrow> own_prop ?q ''node'' \<noteq> JNull | _ \<Rightarrow> True"
    by (simp add: own_prop_def)
  from extras_return_payload [OF e1 e0, of "mock_answering (JObj ?q)" mock_client ?q] e2 e3
  have r2: "fst (invoke (mock_answering (JObj ?q)) ?explore mock_client) = Inr (JObj ?q)"
    by blast
  from r1 r2 show ?thesis by blast
qed

section \<open>explore and the missing node\<close>

lemma fst_explore:
  "fst (explore s n d st) =
     (case fst (callTool s ''qortex_explore'' (explore_arguments n d) st) of
        Inl e \<Rightarrow> Inl e | Inr p \<Rightarrow> explore_result p)"
  by (simp add: explore_def fst_call_then)

text \<open>
  Claim C3, as stated, fails in its last part. When the remote answers the request for a
  node id that was never created with no content, \<open>callTool\<close> yields the empty mapping and
  \<open>explore\<close> returns it as a found result; and a payload whose fields are empty and that
  has no \<open>node\<close> is returned as it is. Neither result is \<open>null\<close>, and neither holds a
  node.
\<close>

theorem explore_empty_result_counterexample:
  "fst (explore (mock_sdk \<lparr>content = Some []\<rparr> ''JSON.stringify(data)'' JNull)
          (JStr ''nonexistent'') JUndefined mock_client) = Inr (JObj []) \<and>
   JObj [] \<noteq> JNull \<and>
   fst (explore (mock_answering empty_neighborhood) (JStr ''nonexistent'') JUndefined
          mock_client) = Inr empty_neighborhood \<and>
   empty_neighborhood \<noteq> JNull \<and>
   get_prop empty_neighborhood ''node'' = Inr JUndefined"
  by (simp add: fst_explore callTool_mock callTool_mock_answering decode_result_def
      explore_result_def empty_neighborhood_def own_prop_def)

text \<open>
  Claim C3, amended. When the tool call returns a decoded payload, \<open>explore\<close> returns
  \<open>null\<close> exactly when the payload's \<open>node\<close> is the explicit \<open>null\<close>; when \<open>node\<close>
  reads as anything else, \<open>explore\<close> returns the payload itself, unchanged and unchecked,
  whatever fields it has; when \<open>node\<close> cannot be read (the payload is itself \<open>null\<close>) a
  TypeError is raised. So a node id that was never created yields \<open>null\<close> only if the
  remote answers with \<open>node: null\<close>.
\<close>

theorem explore_null_iff_marker:
  assumes "fst (callTool s ''qortex_explore'' (explore_arguments n d) st) = Inr p"
  shows "(fst (explore s n d st) = Inr JNull \<longleftrightarrow> get_prop p ''node'' = Inr JNull) \<and>
         (\<forall>v. get_prop p ''node'' = Inr v \<and> v \<noteq> JNull \<longrightarrow> fst (explore s n d st) = Inr p) \<and>
         (\<forall>e. get_prop p ''node'' = Inl e \<longrightarrow> fst (explore s n d st) = Inl e)"
proof -
  have run: "fst (explore s n d st) = explore_result p"
    using assms by (simp add: fst_explore)
  have "p \<noteq> JNull" if "get_prop p ''node'' = Inr v" for v
    using that by (cases p) simp_all
  then show ?thesis
    unfolding run by (auto simp add: explore_result_def split: sum.splits)
qed

theorem explore_null_iff_marker_witness:
  "get_prop null_node ''node'' = Inr JNull \<and>
   fst (explore (mock_answering null_node) (JStr ''nonexistent'') JUndefined mock_client)
     = Inr JNull \<and>
   get_prop neighborhood ''node'' = Inr oauth_node \<and> oauth_node \<noteq> JNull \<and>
   fst (explore (mock_answering neighborhood) (JStr ''sec:oauth'') JUndefined mock_client)
     = Inr neighborhood \<and>
   get_prop JNull ''node'' = Inl TypeError \<and>
   fst (explore (mock_answering JNull) (JStr ''sec:oauth'') JUndefined mock_client)
     = Inl TypeError"
proof -
  have a: "fst (callTool (mock_answering null_node) ''qortex_explore''
             (explore_arguments (JStr ''nonexistent'') JUndefined) mock_client) = Inr null_node"
    by (simp add: callTool_mock_answering)
  have b: "get_prop null_node ''node'' = Inr JNull"
    by (simp add: null_node_def own_prop_def)
  have c: "fst (callTool (mock_answering neighborhood) ''qortex_explore''
             (explore_arguments (JStr ''sec:oauth'') JUndefined) mock_client) = Inr neighborhood"
    by (simp add: callTool_mock_answering)
  have d: "get_prop neighborhood ''node'' = Inr oauth_node"
    by (simp add: neighborhood_def own_prop_def)
  have e: "oauth_node \<noteq> JNull"
    by (simp add: oauth_node_def)
  have f: "fst (callTool (mock_answering JNull) ''qortex_explore''
             (explore_arguments (JStr ''sec:oauth'') JUndefined) mock_client) = Inr JNull"
    by (simp add: callTool_mock_answering)
  have g: "get_prop JNull ''node'' = Inl TypeError"
    by simp
  from explore_null_iff_marker [OF a] b
  have r1: "fst (explore (mock_answering null_node) (JStr ''nonexistent'') JUndefined
                   mock_client) = Inr JNull"
    by blast
  from explore_null_iff_marker [OF c] d e
  have r2: "fst (explore (mock_answering neighborhood) (JStr ''sec:oauth'') JUndefined
                   mock_client) = Inr neighborhood"
    by blast
  from explore_null_iff_marker [OF f] g
  have r3: "fst (explore (mock_answering JNull) (JStr ''sec:oauth'') JUndefined
                   mock_client) = Inl TypeError"
    by blast
  from b r1 d e r2 g r3 show ?thesis by blast
qed

text \<open>
  Claim C10. When the decoded payload is an object whose \<open>node\<close> field is absent, or
  present with any value other than \<open>null\<close>, \<open>explore\<close> returns the payload, a non-null
  result; in particular a payload with no \<open>node\<close> key at all is returned as found. Only
  a \<open>node\<close> field equal to \<open>null\<close> produces \<open>null\<close>.
\<close>

theorem explore_missing_node_key:
  assumes "fst (callTool s ''qortex_explore'' (explore_arguments n d) st) = Inr (JObj kvs)"
  shows "(map_of kvs ''node'' \<noteq> Some JNull \<longrightarrow>
            fst (explore s n d st) = Inr (JObj kvs) \<and> JObj kvs \<noteq> JNull) \<and>
         (\<not> has_key kvs ''node'' \<longrightarrow> fst (explore s n d st) = Inr (JObj kvs)) \<and>
         (map_of kvs ''node'' = Some JNull \<longrightarrow> fst (explore s n d st) = Inr JNull)"
proof -
  have run: "fst (explore s n d st) = explore_result (JObj kvs)"
    using assms by (simp add: fst_explore)
  have "map_of kvs ''node'' = None" if "\<not> has_key kvs ''node''"
    using that by (simp add: has_key_def map_of_eq_None_iff)
  then show ?thesis
    unfolding run
    by (auto simp add: explore_result_def own_prop_def split: option.splits)
qed

theorem explore_missing_node_key_witness:
  "\<not> has_key [] ''node'' \<and>
   fst (explore (mock_answering (JObj [])) (JStr ''nonexistent'') JUndefined mock_client)
     = Inr (JObj []) \<and>
   map_of [(''node'', JStr ''sec:oauth''), (''edges'', JArr [])] ''node'' \<noteq> Some JNull \<and>
   fst (explore (mock_answering (JObj [(''node'', JStr ''sec:oauth''), (''edges'', JArr [])]))
          (JStr ''sec:oauth'') (JNum 2) mock_client)
     = Inr (JObj [(''node'', JStr ''sec:oauth''), (''edges'', JArr [])]) \<and>
   map_of [(''node'', JNull), (''edges'', JArr [])] ''node'' = Some JNull \<and>
   fst (explore (mock_answering (JObj [(''node'', JNull), (''edges'', JArr [])]))
          (JStr ''sec:oauth'') (JNum 2) mock_client) = Inr JNull"
proof -
  let ?found = "[(''node'', JStr ''sec:oauth''), (''edges'', JArr [])]"
  let ?gone = "[(''node'', JNull), (''edges'', JArr [])]"
  have a: "fst (callTool (mock_answering (JObj [])) ''qortex_explore''
             (explore_arguments (JStr ''nonexistent'') JUndefined) mock_client) = Inr (JObj [])"
    by (simp add: callTool_mock_answering)
  have b: "\<not> has_key [] ''node''"
    by (simp add: has_key_def)
  have c: "fst (callTool (mock_answering (JObj ?found)) ''qortex_explore''
             (explore_arguments (JStr ''sec:oauth'') (JNum 2)) mock_client) = Inr (JObj ?found)"
    by (simp add: callTool_mock_answering)
  have d: "map_of ?found ''node'' \<noteq> Some JNull"
    by simp
  have e: "fst (callTool (mock_answering (JObj ?gone)) ''qortex_explore''
             (explore_arguments (JStr ''sec:oauth'') (JNum 2)) mock_client) = Inr (JObj ?gone)"
    by (simp add: callTool_mock_answering)
  have f: "map_of ?gone ''node'' = Some JNull"
    by simp
  from explore_missing_node_key [OF a] b
  have r1: "fst (explore (mock_answering (JObj [])) (JStr ''nonexistent'') JUndefined
                   mock_client) = Inr (JObj [])"
    by blast
  from explore_missing_node_key [OF c] d
  have r2: "fst (explore (mock_answering (JObj ?found)) (JStr ''sec:oauth'') (JNum 2)
                   mock_client) = Inr (JObj ?found)"
    by blast
  from explore_missing_node_key [OF e] f
  have r3: "fst (explore (mock_answering (JObj ?gone)) (JStr ''sec:oauth'') (JNum 2)
                   mock_client) = Inr JNull"
    by blast
  from b r1 d r2 f r3 show ?thesis by blast
qed

section \<open>query passes the remote's results through\<close>

lemma fst_query:
  "fst (query s i q k f iv st) =
     (case fst (callTool s ''qortex_vector_query'' (query_arguments i q k f iv) st) of
        Inl e \<Rightarrow> Inl e | Inr p \<Rightarrow> query_result p)"
  by (simp add: query_def fst_call_then)

text \<open>
  Claim C4, as stated, fails in its bound: with \<open>topK = 1\<close>, sent to the remote as
  \<open>top_k = 1\<close>, a response that declares two results makes \<open>query\<close> return both.
\<close>

theorem query_length_counterexample:
  "map_of (query_arguments (JStr ''docs'') (JArr [JNum 1, JNum 0, JNum 0]) (JNum 1)
             JUndefined JUndefined) ''top_k'' = Some (JNum 1) \<and>
   fst (query (mock_answering (JObj [(''results'', JArr [hit_v1, hit_v2])]))
          (JStr ''docs'') (JArr [JNum 1, JNum 0, JNum 0]) (JNum 1) JUndefined JUndefined
          mock_client) = Inr (JArr [hit_v1, hit_v2]) \<and>
   1 < length [hit_v1, hit_v2]"
  by (simp add: query_arguments_def fst_query callTool_mock_answering query_result_def
      check_error_def own_prop_def)

text \<open>
  Claim C4, amended. When the tool call returns a payload object without a truthy
  \<open>error\<close>, \<open>query\<close> returns the payload's \<open>results\<close> as they are: the same elements
  in the same order, hence of the same length, whatever \<open>topK\<close> was; an absent or \<open>null\<close>
  \<open>results\<close> gives the empty sequence. The adapter does not cut the sequence to \<open>topK\<close>.
\<close>

theorem query_returns_remote_results:
  assumes "fst (callTool s ''qortex_vector_query'' (query_arguments i q k f iv) st)
           = Inr (JObj kvs)"
    and "\<not> truthy (own_prop kvs ''error'')"
  shows "fst (query s i q k f iv st) = Inr (nullish (own_prop kvs ''results'') (JArr [])) \<and>
         (map_of kvs ''results'' = Some (JArr rs) \<longrightarrow>
            fst (query s i q k f iv st) = Inr (JArr rs)) \<and>
         (map_of kvs ''results'' = None \<or> map_of kvs ''results'' = Some JNull \<longrightarrow>
            fst (query s i q k f iv st) = Inr (JArr []))"
proof -
  have run: "fst (query s i q k f iv st) = Inr (nullish (own_prop kvs ''results'') (JArr []))"
    using assms by (simp add: fst_query query_result_def check_error_def)
  show ?thesis
    unfolding run by (auto simp add: own_prop_def)
qed

theorem query_returns_remote_results_witness:
  "fst (query (mock_answering (JObj [(''results'', JArr [hit_v1, hit_v2])]))
          (JStr ''docs'') (JArr [JNum 1, JNum 0, JNum 0]) (JNum 5) JUndefined JUndefined
          mock_client) = Inr (JArr [hit_v1, hit_v2]) \<and>
   fst (query (mock_answering (JObj []))
          (JStr ''docs'') (JArr [JNum 1, JNum 0, JNum 0]) JUndefined JUndefined JUndefined
          mock_client) = Inr (JArr [])"
proof -
  let ?hits = "[(''results'', JArr [hit_v1, hit_v2])]"
  let ?qv = "JArr [JNum 1, JNum 0, JNum 0]"
  have a: "fst (callTool (mock_answering (JObj ?hits)) ''qortex_vector_query''
             (query_arguments (JStr ''docs'') ?qv (JNum 5) JUndefined JUndefined) mock_client)
           = Inr (JObj ?hits)"
    by (simp add: callTool_mock_answering)
  have b: "\<not> truthy (own_prop ?hits ''error'')"
    by (simp add: own_prop_def)
  have c: "map_of ?hits ''results'' = Some (JArr [hit_v1, hit_v2])"
    by simp
  have d: "fst (callTool (mock_answering (JObj [])) ''qortex_vector_query''
             (query_arguments (JStr ''docs'') ?qv JUndefined JUndefined JUndefined) mock_client)
           = Inr (JObj [])"
    by (simp add: callTool_mock_answering)
  have e: "\<not> truthy (own_prop [] ''error'')"
    by (simp add: own_prop_def)
  have f: "map_of ([] :: jsobject) ''results'' = None"
    by simp
  from query_returns_remote_results [OF a b, of "[hit_v1, hit_v2]"] c
  have r1: "fst (query (mock_answering (JObj ?hits)) (JStr ''docs'') ?qv (JNum 5) JUndefined
                   JUndefined mock_client) = Inr (JArr [hit_v1, hit_v2])"
    by blast
  from query_returns_remote_results [OF d e] f
  have r2: "fst (query (mock_answering (JObj [])) (JStr ''docs'') ?qv JUndefined JUndefined
                   JUndefined mock_client) = Inr (JArr [])"
    by blast
  from r1 r2 show ?thesis by blast
qed

section \<open>What callTool makes of the response envelope\<close>

lemma find_text_None:
  "find_text cs = None \<longleftrightarrow> (\<forall>b \<in> set cs. ctype b \<noteq> ''text'')"
  by (induction cs) auto

lemma find_text_first:
  assumes "\<forall>x \<in> set pre. ctype x \<noteq> ''text''" and "ctype b = ''text''"
  shows "find_text (pre @ b # post) = Some b"
  using assms by (induction pre) auto

lemma callTool_decode:
  assumes "(if connected st then (Inr (), st) else connect s st) = (Inr u, st1)"
    and "client st1 = Some c"
    and "client_callTool s (calls st1) c name a = Inr r"
  shows "fst (callTool s name a st) = decode_result s r"
  using assms by (auto simp add: callTool_def Let_def split: if_splits)

text \<open>
  Claim C5, as stated, fails in its last part: when the first textual part has the empty
  text, \<open>callTool\<close> does not parse it (the decoder would reject it) but returns the empty
  mapping.
\<close>

theorem callTool_empty_text_counterexample:
  "find_text [image_block, empty_text_block] = Some empty_text_block \<and>
   ctext empty_text_block = Some [] \<and>
   JSON_parse (mock_sdk \<lparr>content = Some [image_block, empty_text_block]\<rparr>
                 ''JSON.stringify(data)'' (JObj [(''ids'', JArr [])])) [] = Inl SyntaxError \<and>
   fst (callTool (mock_sdk \<lparr>content = Some [image_block, empty_text_block]\<rparr>
                    ''JSON.stringify(data)'' (JObj [(''ids'', JArr [])]))
          ''qortex_vector_upsert'' [] mock_client) = Inr (JObj [])"
  by (simp add: callTool_mock decode_result_def image_block_def empty_text_block_def)
    (simp add: mock_sdk_def)

text \<open>
  Claim C5, amended. Let the client be connected, or connect successfully, and let the SDK
  answer the tool call with an envelope. If the envelope has no content, no parts, or no
  part tagged \<open>text\<close>, \<open>callTool\<close> returns the empty mapping and raises nothing. If there
  is a first part tagged \<open>text\<close>: when it has no text or the empty text, \<open>callTool\<close>
  again returns the empty mapping; when its text is not empty, the result is exactly what
  the decoder makes of that text, the parsed structure or the decoder's failure.
\<close>

theorem callTool_envelope:
  assumes "(if connected st then (Inr (), st) else connect s st) = (Inr u, st1)"
    and "client st1 = Some c"
    and "client_callTool s (calls st1) c name a = Inr r"
  shows "(content r = None \<or> content r = Some [] \<longrightarrow>
            fst (callTool s name a st) = Inr (JObj [])) \<and>
         (\<forall>cs. content r = Some cs \<and> (\<forall>b \<in> set cs. ctype b \<noteq> ''text'') \<longrightarrow>
            fst (callTool s name a st) = Inr (JObj [])) \<and>
         (\<forall>pre b post. content r = Some (pre @ b # post) \<and>
              (\<forall>x \<in> set pre. ctype x \<noteq> ''text'') \<and> ctype b = ''text'' \<longrightarrow>
            fst (callTool s name a st) =
              (case ctext b of
                 None \<Rightarrow> Inr (JObj [])
               | Some t \<Rightarrow> if t = [] then Inr (JObj []) else JSON_parse s t))"
proof -
  have run: "fst (callTool s name a st) = decode_result s r"
    using assms by (rule callTool_decode)
  have none: "decode_result s r = Inr (JObj [])"
    if "content r = None \<or> content r = Some []"
    using that by (auto simp add: decode_result_def)
  have untagged: "decode_result s r = Inr (JObj [])"
    if "content r = Some cs" "\<forall>b \<in> set cs. ctype b \<noteq> ''text''" for cs
    using that find_text_None [of cs] by (simp add: decode_result_def)
  have tagged: "decode_result s r =
      (case ctext b of
         None \<Rightarrow> Inr (JObj [])
       | Some t \<Rightarrow> if t = [] then Inr (JObj []) else JSON_parse s t)"
    if "content r = Some (pre @ b # post)" "\<forall>x \<in> set pre. ctype x \<noteq> ''text''"
      "ctype b = ''text''" for pre b post
    using that find_text_first [of pre b post] by (simp add: decode_result_def)
  from none untagged tagged show ?thesis
    unfolding run by blast
qed
theorem callTool_envelope_witness:
  "fst (callTool (mock_sdk \<lparr>content = None\<rparr> ''JSON.stringify(data)'' (JObj [(''ids'', JArr [])]))
          ''qortex_vector_delete'' [] mock_client) = Inr (JObj []) \<and>
   fst (callTool (mock_sdk \<lparr>content = Some []\<rparr> ''JSON.stringify(data)''
                    (JObj [(''ids'', JArr [])]))
          ''qortex_vector_delete'' [] mock_client) = Inr (JObj []) \<and>
   fst (callTool (mock_sdk \<lparr>content = Some [image_block]\<rparr> ''JSON.stringify(data)''
                    (JObj [(''ids'', JArr [])]))
          ''qortex_vector_delete'' [] mock_client) = Inr (JObj []) \<and>
   fst (callTool (mock_sdk \<lparr>content = Some [image_block, payload_block, empty_text_block]\<rparr>
                    ''JSON.stringify(data)'' (JObj [(''ids'', JArr [])]))
          ''qortex_vector_upsert'' [] fresh_client) = Inr (JObj [(''ids'', JArr [])])"
proof -
  let ?data = "JObj [(''ids'', JArr [])]"
  let ?t = "''JSON.stringify(data)''"
  let ?c = "SuppliedClient 0"
  have up: "(if connected mock_client then (Inr (), mock_client) else connect s mock_client)
            = (Inr (), mock_client)" for s
    by (simp add: mock_client_fields)
  have cl: "client mock_client = Some ?c"
    by (simp add: mock_client_fields)
  have ans: "client_callTool (mock_sdk r ?t ?data) h c n a = Inr r" for r h c n a
    by (simp add: mock_sdk_def)
  have r1: "fst (callTool (mock_sdk \<lparr>content = None\<rparr> ?t ?data) ''qortex_vector_delete'' []
                   mock_client) = Inr (JObj [])"
    using callTool_envelope [OF up cl ans [of "\<lparr>content = None\<rparr>" "calls mock_client" ?c "''qortex_vector_delete''" "[]"]] by simp
  have r2: "fst (callTool (mock_sdk \<lparr>content = Some []\<rparr> ?t ?data) ''qortex_vector_delete'' []
                   mock_client) = Inr (JObj [])"
    using callTool_envelope [OF up cl ans [of "\<lparr>content = Some []\<rparr>" "calls mock_client" ?c "''qortex_vector_delete''" "[]"]] by simp
  have img: "\<forall>b \<in> set [image_block]. ctype b \<noteq> ''text''"
    by (simp add: image_block_def)
  have r3: "fst (callTool (mock_sdk \<lparr>content = Some [image_block]\<rparr> ?t ?data)
                   ''qortex_vector_delete'' [] mock_client) = Inr (JObj [])"
    using callTool_envelope [OF up cl ans [of "\<lparr>content = Some [image_block]\<rparr>" "calls mock_client" ?c "''qortex_vector_delete''" "[]"]] img
    by simp
  let ?r = "\<lparr>content = Some [image_block, payload_block, empty_text_block]\<rparr>"
  have spawn: "(if connected fresh_client then (Inr (), fresh_client)
                else connect (mock_sdk ?r ?t ?data) fresh_client) = (Inr (), spawned_client)"
    by (simp add: connect_def fresh_client_def new_QortexMcpClient_def spawn_config_def
        spawned_client_def default_transport_def mock_sdk_def Let_def)
  have cl': "client spawned_client = Some (NewClient ''mastra-qortex'' ''0.1.0'')"
    by (simp add: spawned_client_def)
  have shape: "content ?r = Some ([image_block] @ payload_block # [empty_text_block])"
    by simp
  have tagged: "ctype payload_block = ''text''" "ctext payload_block = Some ?t"
    by (simp_all add: payload_block_def)
  have parsed: "JSON_parse (mock_sdk ?r ?t ?data) ?t = Inr ?data"
    by (simp add: mock_sdk_def)
  have ans': "client_callTool (mock_sdk ?r ?t ?data) (calls spawned_client)
                (NewClient ''mastra-qortex'' ''0.1.0'') ''qortex_vector_upsert'' [] = Inr ?r"
    by (rule ans)
  from callTool_envelope [OF spawn cl' ans']
  have "\<forall>pre b post. content ?r = Some (pre @ b # post) \<and>
          (\<forall>x \<in> set pre. ctype x \<noteq> ''text'') \<and> ctype b = ''text'' \<longrightarrow>
        fst (callTool (mock_sdk ?r ?t ?data) ''qortex_vector_upsert'' [] fresh_client) =
          (case ctext b of
             None \<Rightarrow> Inr (JObj [])
           | Some t \<Rightarrow> if t = [] then Inr (JObj []) else JSON_parse (mock_sdk ?r ?t ?data) t)"
    by blast
  from this [rule_format, of "[image_block]" payload_block "[empty_text_block]"]
    shape img tagged parsed
  have r4: "fst (callTool (mock_sdk ?r ?t ?data) ''qortex_vector_upsert'' [] fresh_client)
            = Inr ?data"
    by simp
  from r1 r2 r3 r4 show ?thesis by blast
qed

section \<open>The argument object\<close>

lemma nullish_undefined:
  "nullish v JUndefined = (if v = JUndefined \<or> v = JNull then JUndefined else v)"
  by (cases v) simp_all

lemma textQuery_arguments_object:
  "textQuery_arguments c (JObj kvs) =
     Inr [(''context'', c),
          (''domains'', nullish (own_prop kvs ''domains'') JUndefined),
          (''top_k'', nullish (own_prop kvs ''topK'') (JNum 20)),
          (''min_confidence'', nullish (own_prop kvs ''minConfidence'') (JNum 0)),
          (''mode'', nullish (own_prop kvs ''mode'') (JStr ''auto''))]"
  by (simp add: textQuery_arguments_def)

lemma getRules_arguments_object:
  "getRules_arguments (JObj kvs) =
     Inr [(''domains'', nullish (own_prop kvs ''domains'') JUndefined),
          (''concept_ids'', nullish (own_prop kvs ''conceptIds'') JUndefined),
          (''categories'', nullish (own_prop kvs ''categories'') JUndefined),
          (''include_derived'', nullish (own_prop kvs ''includeDerived'') (JBool True)),
          (''min_confidence'', nullish (own_prop kvs ''minConfidence'') (JNum 0))]"
  by (simp add: getRules_arguments_def)

lemma updateVector_arguments_object:
  "updateVector_arguments i x f (JObj kvs) =
     Inr [(''index_name'', i),
          (''id'', nullish x JUndefined),
          (''filter'', nullish f JUndefined),
          (''vector'', nullish (own_prop kvs ''vector'') JUndefined),
          (''metadata'', nullish (own_prop kvs ''metadata'') JUndefined)]"
  by (simp add: updateVector_arguments_def)

text \<open>
  Claim C6. The object a method passes to \<open>callTool\<close> is the object the SDK client
  receives, and it already holds every default: \<open>metric\<close> is cosine, \<open>top_k\<close> is 10 and
  \<open>include_vector\<close> is false in the storage methods; \<open>top_k\<close> is 20, \<open>min_confidence\<close>
  is 0 and \<open>mode\<close> is auto in \<open>textQuery\<close>; \<open>include_derived\<close> is true and
  \<open>min_confidence\<close> is 0 in \<open>getRules\<close>; \<open>source\<close> is mastra in \<open>feedback\<close>; each
  whenever the caller left the parameter unset.
\<close>

theorem defaults_applied_locally:
  "(connected st \<and> client st = Some c \<and> arguments_of m = Inr a \<longrightarrow>
      calls (snd (invoke s m st)) = calls st @ [ClientCallTool c (tool_name m) a]) \<and>
   map_of (createIndex_arguments i d JUndefined) ''metric'' = Some (JStr ''cosine'') \<and>
   map_of (query_arguments i q JUndefined f iv) ''top_k'' = Some (JNum 10) \<and>
   map_of (query_arguments i q k f JUndefined) ''include_vector'' = Some (JBool False) \<and>
   textQuery_arguments ctx JUndefined =
     Inr [(''context'', ctx), (''domains'', JUndefined), (''top_k'', JNum 20),
          (''min_confidence'', JNum 0), (''mode'', JStr ''auto'')] \<and>
   (own_prop kvs ''topK'' = JUndefined \<longrightarrow>
      (\<exists>b. textQuery_arguments ctx (JObj kvs) = Inr b \<and> map_of b ''top_k'' = Some (JNum 20))) \<and>
   (own_prop kvs ''minConfidence'' = JUndefined \<longrightarrow>
      (\<exists>b. textQuery_arguments ctx (JObj kvs) = Inr b \<and>
           map_of b ''min_confidence'' = Some (JNum 0))) \<and>
   (own_prop kvs ''mode'' = JUndefined \<longrightarrow>
      (\<exists>b. textQuery_arguments ctx (JObj kvs) = Inr b \<and>
           map_of b ''mode'' = Some (JStr ''auto''))) \<and>
   getRules_arguments JUndefined =
     Inr [(''domains'', JUndefined), (''concept_ids'', JUndefined), (''categories'', JUndefined),
          (''include_derived'', JBool True), (''min_confidence'', JNum 0)] \<and>
   (own_prop kvs ''includeDerived'' = JUndefined \<longrightarrow>
      (\<exists>b. getRules_arguments (JObj kvs) = Inr b \<and>
           map_of b ''include_derived'' = Some (JBool True))) \<and>
   (own_prop kvs ''minConfidence'' = JUndefined \<longrightarrow>
      (\<exists>b. getRules_arguments (JObj kvs) = Inr b \<and>
           map_of b ''min_confidence'' = Some (JNum 0))) \<and>
   map_of (feedback_arguments qid outcomes JUndefined) ''source'' = Some (JStr ''mastra'')"
proof -
  have sent: "connected st \<and> client st = Some c \<and> arguments_of m = Inr a \<longrightarrow>
      calls (snd (invoke s m st)) = calls st @ [ClientCallTool c (tool_name m) a]"
    by (simp add: invoke_calls)
  have create: "map_of (createIndex_arguments i d JUndefined) ''metric'' = Some (JStr ''cosine'')"
    by (simp add: createIndex_arguments_def)
  have topk: "map_of (query_arguments i q JUndefined f iv) ''top_k'' = Some (JNum 10)"
    by (simp add: query_arguments_def)
  have incl: "map_of (query_arguments i q k f JUndefined) ''include_vector'' = Some (JBool False)"
    by (simp add: query_arguments_def)
  have tq0: "textQuery_arguments ctx JUndefined =
     Inr [(''context'', ctx), (''domains'', JUndefined), (''top_k'', JNum 20),
          (''min_confidence'', JNum 0), (''mode'', JStr ''auto'')]"
    by (simp add: textQuery_arguments_def own_prop_def)
  have tq: "own_prop kvs ''topK'' = JUndefined \<longrightarrow>
      (\<exists>b. textQuery_arguments ctx (JObj kvs) = Inr b \<and> map_of b ''top_k'' = Some (JNum 20))"
    "own_prop kvs ''minConfidence'' = JUndefined \<longrightarrow>
      (\<exists>b. textQuery_arguments ctx (JObj kvs) = Inr b \<and>
           map_of b ''min_confidence'' = Some (JNum 0))"
    "own_prop kvs ''mode'' = JUndefined \<longrightarrow>
      (\<exists>b. textQuery_arguments ctx (JObj kvs) = Inr b \<and>
           map_of b ''mode'' = Some (JStr ''auto''))"
    by (simp_all add: textQuery_arguments_object)
  have gr0: "getRules_arguments JUndefined =
     Inr [(''domains'', JUndefined), (''concept_ids'', JUndefined), (''categories'', JUndefined),
          (''include_derived'', JBool True), (''min_confidence'', JNum 0)]"
    by (simp add: getRules_arguments_def own_prop_def)
  have gr: "own_prop kvs ''includeDerived'' = JUndefined \<longrightarrow>
      (\<exists>b. getRules_arguments (JObj kvs) = Inr b \<and>
           map_of b ''include_derived'' = Some (JBool True))"
    "own_prop kvs ''minConfidence'' = JUndefined \<longrightarrow>
      (\<exists>b. getRules_arguments (JObj kvs) = Inr b \<and>
           map_of b ''min_confidence'' = Some (JNum 0))"
    by (simp_all add: getRules_arguments_object)
  have fb: "map_of (feedback_arguments qid outcomes JUndefined) ''source'' = Some (JStr ''mastra'')"
    by (simp add: feedback_arguments_def)
  from sent create topk incl tq0 tq gr0 gr fb show ?thesis
    by (intro conjI)
qed
theorem defaults_applied_locally_witness:
  "calls (snd (invoke (mock_answering (JObj [(''results'', JArr [])]))
                 (Query (JStr ''docs'') (JArr [JNum 1, JNum 0, JNum 0]) JUndefined
                    (JObj [(''source'', JStr ''handbook'')]) JUndefined)
                 mock_client))
     = [ClientCallTool (SuppliedClient 0) ''qortex_vector_query''
          [(''index_name'', JStr ''docs''),
           (''query_vector'', JArr [JNum 1, JNum 0, JNum 0]),
           (''top_k'', JNum 10),
           (''filter'', JObj [(''source'', JStr ''handbook'')]),
           (''include_vector'', JBool False)]] \<and>
   (\<exists>b. textQuery_arguments (JStr ''OAuth2 auth'')
           (JObj [(''domains'', JArr [JStr ''security'']), (''mode'', JStr ''graph'')]) = Inr b \<and>
        map_of b ''top_k'' = Some (JNum 20) \<and>
        map_of b ''min_confidence'' = Some (JNum 0)) \<and>
   (\<exists>b. getRules_arguments (JObj [(''domains'', JArr [JStr ''security''])]) = Inr b \<and>
        map_of b ''include_derived'' = Some (JBool True))"
proof -
  let ?s = "mock_answering (JObj [(''results'', JArr [])])"
  let ?qv = "JArr [JNum 1, JNum 0, JNum 0]"
  let ?flt = "JObj [(''source'', JStr ''handbook'')]"
  let ?m = "Query (JStr ''docs'') ?qv JUndefined ?flt JUndefined"
  let ?a = "query_arguments (JStr ''docs'') ?qv JUndefined ?flt JUndefined"
  let ?opts = "[(''domains'', JArr [JStr ''security'']), (''mode'', JStr ''graph'')]"
  let ?ropts = "[(''domains'', JArr [JStr ''security''])]"
  note q = defaults_applied_locally
    [where st = mock_client and c = "SuppliedClient 0" and m = ?m and a = ?a and s = ?s]
  note t = defaults_applied_locally [where kvs = ?opts and ctx = "JStr ''OAuth2 auth''"]
  note g = defaults_applied_locally [where kvs = ?ropts]
  have pre: "connected mock_client \<and> client mock_client = Some (SuppliedClient 0) \<and>
             arguments_of ?m = Inr ?a"
    by (simp add: mock_client_fields)
  have unset: "own_prop ?opts ''topK'' = JUndefined" "own_prop ?opts ''minConfidence'' = JUndefined"
    "own_prop ?ropts ''includeDerived'' = JUndefined"
    by (simp_all add: own_prop_def)
  from q pre have "calls (snd (invoke ?s ?m mock_client))
      = calls mock_client @ [ClientCallTool (SuppliedClient 0) (tool_name ?m) ?a]"
    by blast
  then have r1: "calls (snd (invoke ?s ?m mock_client))
      = [ClientCallTool (SuppliedClient 0) ''qortex_vector_query''
          [(''index_name'', JStr ''docs''), (''query_vector'', ?qv), (''top_k'', JNum 10),
           (''filter'', ?flt), (''include_vector'', JBool False)]]"
    by (simp add: mock_client_fields query_arguments_def)
  from t unset have "\<exists>b. textQuery_arguments (JStr ''OAuth2 auth'') (JObj ?opts) = Inr b \<and>
        map_of b ''top_k'' = Some (JNum 20)"
    and "\<exists>b. textQuery_arguments (JStr ''OAuth2 auth'') (JObj ?opts) = Inr b \<and>
        map_of b ''min_confidence'' = Some (JNum 0)"
    by blast+
  then have r2: "\<exists>b. textQuery_arguments (JStr ''OAuth2 auth'') (JObj ?opts) = Inr b \<and>
        map_of b ''top_k'' = Some (JNum 20) \<and> map_of b ''min_confidence'' = Some (JNum 0)"
    by auto
  from g unset have r3: "\<exists>b. getRules_arguments (JObj ?ropts) = Inr b \<and>
        map_of b ''include_derived'' = Some (JBool True)"
    by blast
  from r1 r2 r3 show ?thesis by blast
qed
text \<open>
  Claim C7. An optional parameter or property without a default is never dropped from the
  argument object: the key is there whatever the caller gave, with \<open>undefined\<close> as the
  marker when the caller gave nothing (or \<open>null\<close>) and the caller's value otherwise, so
  that an empty list or object the caller passed stays apart from the marker. This holds
  for \<open>metadata\<close> and \<open>ids\<close> of \<open>upsert\<close>, \<open>filter\<close> of \<open>query\<close>, \<open>id\<close>, \<open>filter\<close>,
  \<open>update.vector\<close> and \<open>update.metadata\<close> of \<open>updateVector\<close>, \<open>ids\<close> and \<open>filter\<close>
  of \<open>deleteVectors\<close>, \<open>domains\<close> of \<open>textQuery\<close>, and \<open>domains\<close>, \<open>conceptIds\<close> and
  \<open>categories\<close> of \<open>getRules\<close>; and the object so built is the one the SDK client receives.
\<close>

theorem optional_fields_marked_absent:
  "(connected st \<and> client st = Some c \<and> arguments_of m = Inr a \<longrightarrow>
      calls (snd (invoke s m st)) = calls st @ [ClientCallTool c (tool_name m) a]) \<and>
   carries (Inr (upsert_arguments i vs v ids)) ''metadata'' (marker_or v) \<and>
   carries (Inr (upsert_arguments i vs md v)) ''ids'' (marker_or v) \<and>
   carries (Inr (query_arguments i q k v iv)) ''filter'' (marker_or v) \<and>
   carries (updateVector_arguments i v f (JObj u)) ''id'' (marker_or v) \<and>
   carries (updateVector_arguments i x v (JObj u)) ''filter'' (marker_or v) \<and>
   carries (updateVector_arguments i x f (JObj u)) ''vector'' (marker_or (own_prop u ''vector'')) \<and>
   carries (updateVector_arguments i x f (JObj u)) ''metadata''
     (marker_or (own_prop u ''metadata'')) \<and>
   carries (Inr (deleteVectors_arguments i v f)) ''ids'' (marker_or v) \<and>
   carries (Inr (deleteVectors_arguments i ids v)) ''filter'' (marker_or v) \<and>
   carries (textQuery_arguments ctx (JObj u)) ''domains'' (marker_or (own_prop u ''domains'')) \<and>
   carries (getRules_arguments (JObj u)) ''domains'' (marker_or (own_prop u ''domains'')) \<and>
   carries (getRules_arguments (JObj u)) ''concept_ids'' (marker_or (own_prop u ''conceptIds'')) \<and>
   carries (getRules_arguments (JObj u)) ''categories'' (marker_or (own_prop u ''categories'')) \<and>
   textQuery_arguments ctx JUndefined = textQuery_arguments ctx (JObj []) \<and>
   getRules_arguments JUndefined = getRules_arguments (JObj [])"
proof -
  have sent: "connected st \<and> client st = Some c \<and> arguments_of m = Inr a \<longrightarrow>
      calls (snd (invoke s m st)) = calls st @ [ClientCallTool c (tool_name m) a]"
    by (simp add: invoke_calls)
  have up: "carries (Inr (upsert_arguments i vs v ids)) ''metadata'' (marker_or v)"
    "carries (Inr (upsert_arguments i vs md v)) ''ids'' (marker_or v)"
    by (simp_all add: carries_def marker_or_def upsert_arguments_def has_key_def
        nullish_undefined)
  have qu: "carries (Inr (query_arguments i q k v iv)) ''filter'' (marker_or v)"
    by (simp add: carries_def marker_or_def query_arguments_def has_key_def nullish_undefined)
  have uv: "carries (updateVector_arguments i v f (JObj u)) ''id'' (marker_or v)"
    "carries (updateVector_arguments i x v (JObj u)) ''filter'' (marker_or v)"
    "carries (updateVector_arguments i x f (JObj u)) ''vector'' (marker_or (own_prop u ''vector''))"
    "carries (updateVector_arguments i x f (JObj u)) ''metadata''
       (marker_or (own_prop u ''metadata''))"
    by (simp_all add: carries_def marker_or_def updateVector_arguments_object has_key_def
        nullish_undefined)
  have dv: "carries (Inr (deleteVectors_arguments i v f)) ''ids'' (marker_or v)"
    "carries (Inr (deleteVectors_arguments i ids v)) ''filter'' (marker_or v)"
    by (simp_all add: carries_def marker_or_def deleteVectors_arguments_def has_key_def
        nullish_undefined)
  have tq: "carries (textQuery_arguments ctx (JObj u)) ''domains''
      (marker_or (own_prop u ''domains''))"
    by (simp add: carries_def marker_or_def textQuery_arguments_object has_key_def
        nullish_undefined)
  have gr: "carries (getRules_arguments (JObj u)) ''domains'' (marker_or (own_prop u ''domains''))"
    "carries (getRules_arguments (JObj u)) ''concept_ids'' (marker_or (own_prop u ''conceptIds''))"
    "carries (getRules_arguments (JObj u)) ''categories'' (marker_or (own_prop u ''categories''))"
    by (simp_all add: carries_def marker_or_def getRules_arguments_object has_key_def
        nullish_undefined)
  have omitted: "textQuery_arguments ctx JUndefined = textQuery_arguments ctx (JObj [])"
    "getRules_arguments JUndefined = getRules_arguments (JObj [])"
    by (simp_all add: textQuery_arguments_def getRules_arguments_def)
  from sent up qu uv dv tq gr omitted show ?thesis
    by (intro conjI)
qed

theorem optional_fields_marked_absent_witness:
  "calls (snd (invoke (mock_answering (JObj [(''status'', JStr ''deleted''), (''count'', JNum 3)]))
                 (DeleteVectors (JStr ''docs'') JUndefined (JObj [(''source'', JStr ''old'')]))
                 mock_client))
     = [ClientCallTool (SuppliedClient 0) ''qortex_vector_delete_many''
          [(''index_name'', JStr ''docs''),
           (''ids'', JUndefined),
           (''filter'', JObj [(''source'', JStr ''old'')])]] \<and>
   carries (Inr (upsert_arguments (JStr ''docs'') (JArr []) JUndefined (JArr [])))
     ''metadata'' JUndefined \<and>
   carries (Inr (upsert_arguments (JStr ''docs'') (JArr []) (JArr []) (JArr [])))
     ''metadata'' (JArr []) \<and>
   carries (getRules_arguments (JObj [(''domains'', JArr [JStr ''security''])]))
     ''concept_ids'' JUndefined"
proof -
  let ?s = "mock_answering (JObj [(''status'', JStr ''deleted''), (''count'', JNum 3)])"
  let ?flt = "JObj [(''source'', JStr ''old'')]"
  let ?m = "DeleteVectors (JStr ''docs'') JUndefined ?flt"
  let ?a = "deleteVectors_arguments (JStr ''docs'') JUndefined ?flt"
  let ?ropts = "[(''domains'', JArr [JStr ''security''])]"
  note sent = optional_fields_marked_absent
    [where st = mock_client and c = "SuppliedClient 0" and m = ?m and a = ?a and s = ?s]
  note unset = optional_fields_marked_absent
    [where i = "JStr ''docs''" and vs = "JArr []" and ids = "JArr []" and v = JUndefined]
  note empty = optional_fields_marked_absent
    [where i = "JStr ''docs''" and vs = "JArr []" and ids = "JArr []" and v = "JArr []"]
  note rules = optional_fields_marked_absent [where u = ?ropts]
  have pre: "connected mock_client \<and> client mock_client = Some (SuppliedClient 0) \<and>
             arguments_of ?m = Inr ?a"
    by (simp add: mock_client_fields)
  from sent pre have "calls (snd (invoke ?s ?m mock_client))
      = calls mock_client @ [ClientCallTool (SuppliedClient 0) (tool_name ?m) ?a]"
    by blast
  then have r1: "calls (snd (invoke ?s ?m mock_client))
      = [ClientCallTool (SuppliedClient 0) ''qortex_vector_delete_many''
          [(''index_name'', JStr ''docs''), (''ids'', JUndefined), (''filter'', ?flt)]]"
    by (simp add: mock_client_fields deleteVectors_arguments_def)
  from unset have "carries (Inr (upsert_arguments (JStr ''docs'') (JArr []) JUndefined (JArr [])))
      ''metadata'' (marker_or JUndefined)"
    by blast
  then have r2: "carries (Inr (upsert_arguments (JStr ''docs'') (JArr []) JUndefined (JArr [])))
      ''metadata'' JUndefined"
    by (simp add: marker_or_def)
  from empty have "carries (Inr (upsert_arguments (JStr ''docs'') (JArr []) (JArr []) (JArr [])))
      ''metadata'' (marker_or (JArr []))"
    by blast
  then have r3: "carries (Inr (upsert_arguments (JStr ''docs'') (JArr []) (JArr []) (JArr [])))
      ''metadata'' (JArr [])"
    by (simp add: marker_or_def)
  from rules have "carries (getRules_arguments (JObj ?ropts)) ''concept_ids''
      (marker_or (own_prop ?ropts ''conceptIds''))"
    by blast
  then have r4: "carries (getRules_arguments (JObj ?ropts)) ''concept_ids'' JUndefined"
    by (simp add: marker_or_def own_prop_def)
  from r1 r2 r3 r4 show ?thesis by blast
qed

text \<open>
  Claim C8, as stated, fails: \<open>explore\<close> with depth 5 sends \<open>depth = 5\<close> to the remote and
  returns what the remote answers.
\<close>

theorem explore_depth_counterexample:
  "calls (snd (explore (mock_answering neighborhood) (JStr ''sec:oauth'') (JNum 5) mock_client))
     = [ClientCallTool (SuppliedClient 0) ''qortex_explore''
          [(''node_id'', JStr ''sec:oauth''), (''depth'', JNum 5)]] \<and>
   fst (explore (mock_answering neighborhood) (JStr ''sec:oauth'') (JNum 5) mock_client)
     = Inr neighborhood \<and>
   \<not> ((1::rat) \<le> 5 \<and> (5::rat) \<le> 3)"
  by (simp add: explore_def call_then_calls mock_client_fields explore_arguments_def
      fst_call_then callTool_mock_answering explore_result_def neighborhood_def own_prop_def
      oauth_node_def)

text \<open>
  Claim C8, amended. The depth sent to the remote is 1 when the caller supplies none, and
  otherwise exactly the depth the caller supplied: the adapter neither rejects nor clamps
  it.
\<close>

theorem explore_depth_forwarded:
  "(connected st \<and> client st = Some c \<longrightarrow>
      calls (snd (explore s n d st))
        = calls st @ [ClientCallTool c ''qortex_explore'' (explore_arguments n d)]) \<and>
   explore_arguments n JUndefined = [(''node_id'', n), (''depth'', JNum 1)] \<and>
   (d \<noteq> JUndefined \<longrightarrow> explore_arguments n d = [(''node_id'', n), (''depth'', d)])"
proof -
  have "default_param d (JNum 1) = d" if "d \<noteq> JUndefined"
    using that by (cases d) simp_all
  then show ?thesis
    by (simp add: explore_def call_then_calls explore_arguments_def)
qed

theorem explore_depth_forwarded_witness:
  "calls (snd (explore (mock_answering neighborhood) (JStr ''sec:oauth'') JUndefined mock_client))
     = [ClientCallTool (SuppliedClient 0) ''qortex_explore''
          [(''node_id'', JStr ''sec:oauth''), (''depth'', JNum 1)]] \<and>
   calls (snd (explore (mock_answering neighborhood) (JStr ''sec:oauth'') (JNum 7) mock_client))
     = [ClientCallTool (SuppliedClient 0) ''qortex_explore''
          [(''node_id'', JStr ''sec:oauth''), (''depth'', JNum 7)]]"
proof -
  let ?s = "mock_answering neighborhood"
  note unset = explore_depth_forwarded
    [where st = mock_client and c = "SuppliedClient 0" and s = ?s and n = "JStr ''sec:oauth''"
       and d = JUndefined]
  note deep = explore_depth_forwarded
    [where st = mock_client and c = "SuppliedClient 0" and s = ?s and n = "JStr ''sec:oauth''"
       and d = "JNum 7"]
  have pre: "connected mock_client \<and> client mock_client = Some (SuppliedClient 0)"
    by (simp add: mock_client_fields)
  have given: "JNum 7 \<noteq> JUndefined"
    by simp
  from unset pre have r1: "calls (snd (explore ?s (JStr ''sec:oauth'') JUndefined mock_client))
      = [ClientCallTool (SuppliedClient 0) ''qortex_explore''
          [(''node_id'', JStr ''sec:oauth''), (''depth'', JNum 1)]]"
    by (simp add: mock_client_fields)
  from deep pre given
  have r2: "calls (snd (explore ?s (JStr ''sec:oauth'') (JNum 7) mock_client))
      = [ClientCallTool (SuppliedClient 0) ''qortex_explore''
          [(''node_id'', JStr ''sec:oauth''), (''depth'', JNum 7)]]"
    by (simp add: mock_client_fields)
  from r1 r2 show ?thesis by blast
qed

end
